theory Spec2Isabelle
  imports Main
begin

section \<open>JavaScript values\<close>

text \<open>
  The module \<^verbatim>\<open>modules/lotamePanoramaIdSystem.js\<close> works on dynamically typed
  values: fields of a parsed JSON response, configuration parameters, strings read from
  storage. They are modelled by the JSON value type below, with \<open>JUndefined\<close> for an
  absent field. Numbers are integers (timestamps in milliseconds and numeric codes), so
  fractional numbers are not represented, and every number is taken to lie in the range
  in which JavaScript prints all its digits and in which it is the time of a valid
  \<^verbatim>\<open>Date\<close>. The result of \<^verbatim>\<open>parseInt\<close> is a number or \<^verbatim>\<open>NaN\<close>.
\<close>

datatype jsval =
    JUndefined
  | JNull
  | JBool bool
  | JNum int
  | JStr string
  | JArr "jsval list"
  | JObj "(string \<times> jsval) list"

datatype jsnum = Num int | NaN

text \<open>Truthiness of a value, as tested by \<^verbatim>\<open>if (v)\<close>, \<^verbatim>\<open>!v\<close> and \<^verbatim>\<open>a && b\<close>.\<close>

fun truthy :: "jsval \<Rightarrow> bool" where
  "truthy JUndefined = False"
| "truthy JNull = False"
| "truthy (JBool b) = b"
| "truthy (JNum n) = (n \<noteq> 0)"
| "truthy (JStr s) = (s \<noteq> [])"
| "truthy (JArr xs) = True"
| "truthy (JObj kvs) = True"

text \<open>Comparison of numbers: every comparison with \<^verbatim>\<open>NaN\<close> is false.\<close>

fun jsless :: "jsnum \<Rightarrow> jsnum \<Rightarrow> bool" where
  "jsless (Num a) (Num b) = (a < b)"
| "jsless _ _ = False"

subsection \<open>Decimal numerals: \<^verbatim>\<open>String(n)\<close> and \<^verbatim>\<open>parseInt(s, 10)\<close>\<close>

definition digitChar :: "nat \<Rightarrow> char" where
  "digitChar d = ''0123456789'' ! d"

definition isDigit :: "char \<Rightarrow> bool" where
  "isDigit c = (48 \<le> (of_char c :: nat) \<and> (of_char c :: nat) \<le> 57)"

definition digitVal :: "char \<Rightarrow> nat" where
  "digitVal c = of_char c - 48"

fun showNat :: "nat \<Rightarrow> string" where
  "showNat n = (if n < 10 then [digitChar n] else showNat (n div 10) @ [digitChar (n mod 10)])"

declare showNat.simps [simp del]

definition showInt :: "int \<Rightarrow> string" where
  "showInt i = (if i < 0 then CHR ''-'' # showNat (nat (- i)) else showNat (nat i))"

text \<open>
  White space skipped by \<^verbatim>\<open>parseInt\<close>. A \<open>string\<close> holds the UTF-8 bytes of the
  JavaScript string, so the white space and line terminators of ECMAScript are the six
  ASCII characters, the two bytes of U+00A0, and the three bytes of U+1680, U+2000 to
  U+200A, U+2028, U+2029, U+202F, U+205F, U+3000 and U+FEFF.
\<close>

definition isSpace :: "char \<Rightarrow> bool" where
  "isSpace c = ((of_char c :: nat) \<in> {9, 10, 11, 12, 13, 32})"

definition isSpace2 :: "char \<Rightarrow> char \<Rightarrow> bool" where
  "isSpace2 a b = ((of_char a :: nat) = 194 \<and> (of_char b :: nat) = 160)"

definition isSpace3 :: "char \<Rightarrow> char \<Rightarrow> char \<Rightarrow> bool" where
  "isSpace3 a b c =
     (((of_char a :: nat) = 225 \<and> (of_char b :: nat) = 154 \<and> (of_char c :: nat) = 128)
      \<or> ((of_char a :: nat) = 226 \<and> (of_char b :: nat) = 128
          \<and> ((128 \<le> (of_char c :: nat) \<and> (of_char c :: nat) \<le> 138)
              \<or> (of_char c :: nat) \<in> {168, 169, 175}))
      \<or> ((of_char a :: nat) = 226 \<and> (of_char b :: nat) = 129 \<and> (of_char c :: nat) = 159)
      \<or> ((of_char a :: nat) = 227 \<and> (of_char b :: nat) = 128 \<and> (of_char c :: nat) = 128)
      \<or> ((of_char a :: nat) = 239 \<and> (of_char b :: nat) = 187 \<and> (of_char c :: nat) = 191))"

fun skipWhiteSpace :: "string \<Rightarrow> string" where
  "skipWhiteSpace (a # b # c # s) =
     (if isSpace a then skipWhiteSpace (b # c # s)
      else if isSpace2 a b then skipWhiteSpace (c # s)
      else if isSpace3 a b c then skipWhiteSpace s
      else a # b # c # s)"
| "skipWhiteSpace [a, b] =
     (if isSpace a then skipWhiteSpace [b] else if isSpace2 a b then [] else [a, b])"
| "skipWhiteSpace [a] = (if isSpace a then [] else [a])"
| "skipWhiteSpace [] = []"

fun readDigits :: "nat \<Rightarrow> string \<Rightarrow> nat" where
  "readDigits acc [] = acc"
| "readDigits acc (c # cs) = (if isDigit c then readDigits (acc * 10 + digitVal c) cs else acc)"

definition parseDigits :: "string \<Rightarrow> nat option" where
  "parseDigits s = (case s of [] \<Rightarrow> None
                    | c # cs \<Rightarrow> if isDigit c then Some (readDigits 0 s) else None)"

text \<open>
  \<^verbatim>\<open>parseInt(s, 10)\<close>: leading white space is skipped, one sign is read, then the
  longest run of decimal digits; without a digit the result is \<^verbatim>\<open>NaN\<close>. It never throws.
  (A run of digits long enough to leave the range of exact integers is outside the model.)
\<close>

definition parseInt :: "string \<Rightarrow> jsnum" where
  "parseInt s =
     (case skipWhiteSpace s of
        [] \<Rightarrow> NaN
      | c # cs \<Rightarrow>
          if c = CHR ''-'' then (case parseDigits cs of None \<Rightarrow> NaN | Some n \<Rightarrow> Num (- int n))
          else if c = CHR ''+'' then (case parseDigits cs of None \<Rightarrow> NaN | Some n \<Rightarrow> Num (int n))
          else (case parseDigits (c # cs) of None \<Rightarrow> NaN | Some n \<Rightarrow> Num (int n)))"

subsection \<open>Conversion to string\<close>

fun joinComma :: "string list \<Rightarrow> string" where
  "joinComma [] = []"
| "joinComma [s] = s"
| "joinComma (s # t # ss) = s @ '','' @ joinComma (t # ss)"

text \<open>
  \<^verbatim>\<open>String(v)\<close>, which is also what a template literal \<^verbatim>\<open>`${v}`\<close> and the storage
  primitives apply to a value that is not a string. A number is printed with all its
  digits, as JavaScript does below \<open>10\<^sup>2\<^sup>1\<close>.
\<close>

fun toStr :: "jsval \<Rightarrow> string" where
  "toStr JUndefined = ''undefined''"
| "toStr JNull = ''null''"
| "toStr (JBool b) = (if b then ''true'' else ''false'')"
| "toStr (JNum n) = showInt n"
| "toStr (JStr s) = s"
| "toStr (JArr xs) =
     joinComma (map (\<lambda>x. if x = JUndefined \<or> x = JNull then [] else toStr x) xs)"
| "toStr (JObj kvs) = ''[object Object]''"

subsection \<open>The helpers imported from \<^verbatim>\<open>src/utils.js\<close>\<close>

text \<open>
  Modelled from the spec: \<^verbatim>\<open>src/utils.js\<close> is not among the sources, the module imports
  \<^verbatim>\<open>isStr\<close>, \<^verbatim>\<open>isArray\<close>, \<^verbatim>\<open>isBoolean\<close>, \<^verbatim>\<open>isEmpty\<close>, \<^verbatim>\<open>isEmptyStr\<close> and
  \<^verbatim>\<open>timestamp\<close> from it. The spec shows them only through their use, as tests for a
  string, an array, a boolean and an empty value; they have the meaning of the Prebid
  utilities of these names. The three type tests hold of exactly the values of that
  JavaScript type, so the empty string is a string. \<^verbatim>\<open>isEmpty(v)\<close> is true of every
  falsy value, of a string or array of length 0, and otherwise of a value without own
  enumerable keys, which numbers and booleans are. \<^verbatim>\<open>isEmptyStr(v)\<close> holds of the empty
  string only. \<^verbatim>\<open>timestamp()\<close> is the current time \<^verbatim>\<open>Date.now()\<close>, passed to the
  model as \<open>now\<close>.
\<close>

fun isStr :: "jsval \<Rightarrow> bool" where
  "isStr (JStr s) = True"
| "isStr _ = False"

fun isArray :: "jsval \<Rightarrow> bool" where
  "isArray (JArr xs) = True"
| "isArray _ = False"

fun isBoolean :: "jsval \<Rightarrow> bool" where
  "isBoolean (JBool b) = True"
| "isBoolean _ = False"

fun jsLength :: "jsval \<Rightarrow> nat" where
  "jsLength (JStr s) = length s"
| "jsLength (JArr xs) = length xs"
| "jsLength _ = 0"

fun ownKeys :: "jsval \<Rightarrow> string list" where
  "ownKeys (JObj kvs) = map fst kvs"
| "ownKeys _ = []"

definition isEmpty :: "jsval \<Rightarrow> bool" where
  "isEmpty v =
     (if \<not> truthy v then True
      else if isArray v \<or> isStr v then \<not> (jsLength v > 0)
      else length (ownKeys v) \<le> 0)"

definition isEmptyStr :: "jsval \<Rightarrow> bool" where
  "isEmptyStr v = (isStr v \<and> (\<not> truthy v \<or> jsLength v = 0))"

fun startsWith :: "string \<Rightarrow> string \<Rightarrow> bool" where
  "startsWith [] s = True"
| "startsWith (p # ps) [] = False"
| "startsWith (p # ps) (c # cs) = (p = c \<and> startsWith ps cs)"

text \<open>\<^verbatim>\<open>s.indexOf(p) != -1\<close>\<close>

fun indexOfFound :: "string \<Rightarrow> string \<Rightarrow> bool" where
  "indexOfFound p [] = (p = [])"
| "indexOfFound p (c # cs) = (startsWith p (c # cs) \<or> indexOfFound p cs)"

section \<open>The storage manager\<close>

text \<open>
  Modelled from the spec: \<^verbatim>\<open>src/storageManager.js\<close> is not among the sources. The spec
  describes it as a key/value store with two backends that can each be unavailable: a
  cookie store whose entries expire natively, and a plain local storage. A cookie is kept
  with the instant its \<^verbatim>\<open>expires\<close> attribute denotes and is visible strictly before that
  instant; a read of a missing or expired entry yields \<^verbatim>\<open>null\<close> (\<open>None\<close>). Values are
  stored as strings. The cookie domain, the same for every write of the module, is left out.
\<close>

record storage =
  cookiesEnabled :: bool
  localStorageEnabled :: bool
  cookies :: "string \<Rightarrow> (string \<times> int) option"
  localStorageData :: "string \<Rightarrow> string option"

definition cookiesAreEnabled :: "storage \<Rightarrow> bool" where
  "cookiesAreEnabled st = cookiesEnabled st"

definition hasLocalStorage :: "storage \<Rightarrow> bool" where
  "hasLocalStorage st = localStorageEnabled st"

definition getCookie :: "storage \<Rightarrow> int \<Rightarrow> string \<Rightarrow> string option" where
  "getCookie st now key =
     (case cookies st key of
        None \<Rightarrow> None
      | Some (v, expires) \<Rightarrow> if now < expires then Some v else None)"

definition setCookie :: "storage \<Rightarrow> string \<Rightarrow> string \<Rightarrow> int \<Rightarrow> storage" where
  "setCookie st key v expires = st\<lparr>cookies := (cookies st)(key \<mapsto> (v, expires))\<rparr>"

definition getDataFromLocalStorage :: "storage \<Rightarrow> string \<Rightarrow> string option" where
  "getDataFromLocalStorage st key = localStorageData st key"

definition setDataInLocalStorage :: "storage \<Rightarrow> string \<Rightarrow> string \<Rightarrow> storage" where
  "setDataInLocalStorage st key v = st\<lparr>localStorageData := (localStorageData st)(key \<mapsto> v)\<rparr>"

definition removeDataFromLocalStorage :: "storage \<Rightarrow> string \<Rightarrow> storage" where
  "removeDataFromLocalStorage st key = st\<lparr>localStorageData := (localStorageData st)(key := None)\<rparr>"

text \<open>
  The range of the time values of a \<^verbatim>\<open>Date\<close>. For a number in this range
  \<^verbatim>\<open>new Date(t)\<close> is a valid date and \<^verbatim>\<open>String(t)\<close> prints every digit of
  \<open>t\<close>; outside it the date is invalid, and from \<open>10\<^sup>2\<^sup>1\<close> on JavaScript prints a
  number in exponent form. The model of \<open>toUTCString\<close> and of \<open>toStr\<close> on numbers
  describes the code for the numbers of this range only.
\<close>

definition validTimestamp :: "int \<Rightarrow> bool" where
  "validTimestamp t = (- 8640000000000000 \<le> t \<and> t \<le> 8640000000000000)"

text \<open>
  The instant (in milliseconds) denoted by \<^verbatim>\<open>new Date(t).toUTCString()\<close>, for \<open>t\<close>
  in the range of a \<^verbatim>\<open>Date\<close>: the string has a resolution of one second, the
  milliseconds of \<open>t\<close> are dropped.
\<close>

definition toUTCString :: "int \<Rightarrow> int" where
  "toUTCString t = (t div 1000) * 1000"

section \<open>The module \<^verbatim>\<open>lotamePanoramaIdSystem.js\<close>\<close>

definition KEY_ID :: string where "KEY_ID = ''panoramaId''"
definition KEY_EXPIRY :: string where "KEY_EXPIRY = KEY_ID @ ''_expiry''"
definition KEY_PROFILE :: string where "KEY_PROFILE = ''_cc_id''"
definition NINE_MONTHS_MS :: int where "NINE_MONTHS_MS = 23328000 * 1000"
definition DAYS_TO_CACHE :: int where "DAYS_TO_CACHE = 7"
definition DAY_MS :: int where "DAY_MS = 60 * 60 * 24 * 1000"
definition MISSING_CORE_CONSENT :: int where "MISSING_CORE_CONSENT = 111"
definition ID_HOST :: string where "ID_HOST = ''id.crwdcntrl.net''"
definition ID_HOST_COOKIELESS :: string where "ID_HOST_COOKIELESS = ''c.ltmsphrcl.net''"

text \<open>A value read from storage (a string or \<^verbatim>\<open>null\<close>) as a JavaScript value.\<close>

definition ofStored :: "string option \<Rightarrow> jsval" where
  "ofStored r = (case r of None \<Rightarrow> JNull | Some s \<Rightarrow> JStr s)"

text \<open>An optional number (\<^verbatim>\<open>undefined\<close> when absent) as a JavaScript value.\<close>

definition ofNumber :: "int option \<Rightarrow> jsval" where
  "ofNumber r = (case r of None \<Rightarrow> JUndefined | Some n \<Rightarrow> JNum n)"

definition setProfileId :: "storage \<Rightarrow> int \<Rightarrow> string \<Rightarrow> storage" where
  "setProfileId st now profileId =
     (let st1 = (if cookiesAreEnabled st
                 then setCookie st KEY_PROFILE profileId (toUTCString (now + NINE_MONTHS_MS))
                 else st)
      in if hasLocalStorage st1 then setDataInLocalStorage st1 KEY_PROFILE profileId else st1)"

definition getProfileId :: "storage \<Rightarrow> int \<Rightarrow> string option" where
  "getProfileId st now =
     (let profileId = (if cookiesAreEnabled st then getCookie st now KEY_PROFILE else None)
      in if \<not> truthy (ofStored profileId) \<and> hasLocalStorage st
         then getDataFromLocalStorage st KEY_PROFILE
         else profileId)"

definition getFromStorage :: "storage \<Rightarrow> int \<Rightarrow> string \<Rightarrow> string option" where
  "getFromStorage st now key =
     (let v = (if cookiesAreEnabled st then getCookie st now key else None)
      in if hasLocalStorage st \<and> v = None then
           (case getDataFromLocalStorage st (key @ ''_exp'') of
              None \<Rightarrow> getDataFromLocalStorage st key
            | Some storedValueExp \<Rightarrow>
                if storedValueExp = [] then getDataFromLocalStorage st key
                else if jsless (Num now) (parseInt storedValueExp)
                then getDataFromLocalStorage st key
                else None)
         else v)"

text \<open>
  \<^verbatim>\<open>saveLotameCache(key, value, expirationTimestamp)\<close>; the third argument is a number
  of milliseconds, and when it is \<^verbatim>\<open>undefined\<close> (\<open>None\<close>) the default of seven days
  from now is taken.
\<close>

definition saveLotameCache :: "storage \<Rightarrow> int \<Rightarrow> string \<Rightarrow> jsval \<Rightarrow> int option \<Rightarrow> storage" where
  "saveLotameCache st now key v expirationTimestamp =
     (let expiration = (case expirationTimestamp of
                          None \<Rightarrow> now + DAYS_TO_CACHE * DAY_MS
                        | Some t \<Rightarrow> t)
      in if key \<noteq> [] \<and> truthy v then
           (let st1 = (if cookiesAreEnabled st
                       then setCookie st key (toStr v) (toUTCString expiration)
                       else st)
            in if hasLocalStorage st1
               then setDataInLocalStorage
                      (setDataInLocalStorage st1 (key @ ''_exp'') (toStr (JNum expiration)))
                      key (toStr v)
               else st1)
         else st)"

definition clearLotameCache :: "storage \<Rightarrow> string \<Rightarrow> storage" where
  "clearLotameCache st key =
     (if key \<noteq> [] then
        (let st1 = (if cookiesAreEnabled st then setCookie st key [] (toUTCString 0) else st)
         in if hasLocalStorage st1 then removeDataFromLocalStorage st1 key else st1)
      else st)"

record lotame_cache =
  data :: "string option"
  expiryTimestampMs :: jsnum
  clientExpiryTimestampMs :: jsnum

text \<open>
  \<^verbatim>\<open>getLotameLocalCache(clientId)\<close>. Nothing in its \<^verbatim>\<open>try\<close> block throws
  (\<^verbatim>\<open>parseInt\<close> yields \<^verbatim>\<open>NaN\<close> on a string without digits), so the \<^verbatim>\<open>catch\<close>
  block with its \<^verbatim>\<open>logError\<close> is never entered and has no branch here.
\<close>

definition getLotameLocalCache :: "storage \<Rightarrow> int \<Rightarrow> jsval \<Rightarrow> lotame_cache" where
  "getLotameLocalCache st now clientId =
     (let cache = \<lparr>data = getFromStorage st now KEY_ID,
                   expiryTimestampMs = Num 0,
                   clientExpiryTimestampMs = Num 0\<rparr>;
          cache1 = (if truthy clientId then
                      (case getFromStorage st now (KEY_EXPIRY @ ''_'' @ toStr clientId) of
                         None \<Rightarrow> cache
                       | Some rawClientExpiry \<Rightarrow>
                           cache\<lparr>clientExpiryTimestampMs := parseInt rawClientExpiry\<rparr>)
                    else cache)
      in case getFromStorage st now KEY_EXPIRY of
           None \<Rightarrow> cache1
         | Some rawExpiry \<Rightarrow> cache1\<lparr>expiryTimestampMs := parseInt rawExpiry\<rparr>)"

definition getCurrentPanoId :: "int \<Rightarrow> lotame_cache \<Rightarrow> string option" where
  "getCurrentPanoId now localCache =
     (let hasExpiredPanoId = jsless (expiryTimestampMs localCache) (Num now)
      in if \<not> hasExpiredPanoId \<and> \<not> isEmpty (ofStored (data localCache))
         then data localCache
         else None)"

subsection \<open>Consent parameters and request host\<close>

text \<open>
  What the module reads from its surroundings besides the storage: the user agent string
  of the browser and the value of \<^verbatim>\<open>uspDataHandler.getConsentData()\<close>.
\<close>

record environment =
  userAgent :: string
  uspConsentData :: jsval

record consent_data =
  gdprApplies :: jsval
  consentString :: jsval

text \<open>The query parameters are kept as a list of pairs in the order of assignment.\<close>

definition getConsentParameters ::
  "environment \<Rightarrow> storage \<Rightarrow> int \<Rightarrow> consent_data option \<Rightarrow> (string \<times> jsval) list" where
  "getConsentParameters env st now consentData =
     (let usp = uspConsentData env;
          usPrivacy = (if usp \<noteq> JUndefined \<and> \<not> isEmpty usp \<and> \<not> isEmptyStr usp
                       then usp else JUndefined);
          usPrivacy1 = (if \<not> truthy usPrivacy
                        then ofStored (getFromStorage st now ''us_privacy'')
                        else usPrivacy);
          params1 = (if truthy usPrivacy1 then [(''us_privacy'', usPrivacy1)] else []);
          params2 = (case consentData of
                       None \<Rightarrow> params1
                     | Some cd \<Rightarrow>
                         if isBoolean (gdprApplies cd)
                         then params1 @ [(''gdpr_applies'', gdprApplies cd)]
                         else params1);
          consentString0 = (case consentData of
                              None \<Rightarrow> JUndefined
                            | Some cd \<Rightarrow> consentString cd);
          consentString1 = (if \<not> truthy consentString0
                            then ofStored (getFromStorage st now ''eupubconsent-v2'')
                            else consentString0);
          consentString2 = (if \<not> truthy consentString1
                            then ofStored (getFromStorage st now ''euconsent-v2'')
                            else consentString1)
      in if truthy consentString2 then params2 @ [(''gdpr_consent'', consentString2)]
         else params2)"

definition useCookieless :: "environment \<Rightarrow> bool" where
  "useCookieless env =
     (userAgent env \<noteq> [] \<and> indexOfFound ''Safari'' (userAgent env)
      \<and> \<not> indexOfFound ''Chrome'' (userAgent env))"

definition getRequestHost :: "environment \<Rightarrow> string" where
  "getRequestHost env = (if useCookieless env then ID_HOST_COOKIELESS else ID_HOST)"

subsection \<open>Processing a response\<close>

text \<open>
  \<^verbatim>\<open>processResponseIDs\<close> takes the destructured options as arguments, in the order of
  the source, after the storage and the current time, and yields the new storage with the
  value it returns (\<^verbatim>\<open>storedCoreId\<close>, or \<^verbatim>\<open>undefined\<close>). The expiry is an integer
  number of milliseconds, or \<open>None\<close> when the response has no \<^verbatim>\<open>expiry_ts\<close>; a
  response whose \<^verbatim>\<open>expiry_ts\<close> is of another JSON type (\<^verbatim>\<open>null\<close>, a string, a
  fraction) has no counterpart in the model, and the properties below are stated for
  responses with an integer or absent \<^verbatim>\<open>expiry_ts\<close> only.

  \<open>storeResponseIDs\<close> is the part of the function after the block for the client id,
  from the write of the global expiry record to the \<^verbatim>\<open>return storedCoreId\<close>; the
  \<^verbatim>\<open>return\<close> inside the block leaves the function before this part.
\<close>

definition storeResponseIDs ::
  "storage \<Rightarrow> int \<Rightarrow> jsval \<Rightarrow> jsval \<Rightarrow> int option \<Rightarrow> bool \<Rightarrow> storage \<times> jsval" where
  "storeResponseIDs st now profileId coreId expiry consentIsErrorFree =
     (let st1 = saveLotameCache st now KEY_EXPIRY (ofNumber expiry) expiry
      in if isStr profileId then
           (let st2 = (if consentIsErrorFree
                       then setProfileId st1 now (toStr profileId) else st1)
            in if isStr coreId
               then (saveLotameCache st2 now KEY_ID coreId expiry, coreId)
               else (clearLotameCache st2 KEY_ID, JUndefined))
         else
           (let st2 = (if consentIsErrorFree
                       then clearLotameCache st1 KEY_PROFILE else st1)
            in (clearLotameCache st2 KEY_ID, JUndefined)))"

definition processResponseIDs ::
  "storage \<Rightarrow> int \<Rightarrow> jsval \<Rightarrow> jsval \<Rightarrow> jsval \<Rightarrow> jsval \<Rightarrow> int option \<Rightarrow> bool
     \<Rightarrow> storage \<times> jsval" where
  "processResponseIDs st now profileId coreId clientId noConsent expiry consentIsErrorFree =
     (let hasCustomClientId = \<not> isEmpty clientId;
          clientKey = KEY_EXPIRY @ ''_'' @ toStr clientId
      in if hasCustomClientId then
           (if consentIsErrorFree
            then storeResponseIDs (clearLotameCache st clientKey) now profileId coreId expiry
                   consentIsErrorFree
            else if isStr noConsent \<and> noConsent = JStr ''CLIENT''
            then (saveLotameCache st now clientKey (ofNumber expiry) expiry, JUndefined)
            else storeResponseIDs st now profileId coreId expiry consentIsErrorFree)
         else storeResponseIDs st now profileId coreId expiry consentIsErrorFree)"

text \<open>
  The fields that the success handlers read from
  \<^verbatim>\<open>Object.assign({}, JSON.parse(response))\<close>. JSON parsing is outside the module: the
  handlers take the parser as an argument, \<open>None\<close> standing for a body on which
  \<^verbatim>\<open>JSON.parse\<close> throws.
\<close>

record response_obj =
  profile_id :: jsval
  core_id :: jsval
  no_consent :: jsval
  expiry_ts :: "int option"
  errors :: jsval

text \<open>\<^verbatim>\<open>a.indexOf(v) !== -1\<close> on an array\<close>

fun arrayIndexOfFound :: "jsval \<Rightarrow> jsval \<Rightarrow> bool" where
  "arrayIndexOfFound (JArr xs) v = (v \<in> set xs)"
| "arrayIndexOfFound _ v = False"

text \<open>
  The body shared by the success handler of the \<^verbatim>\<open>/id\<close> request and the one of
  \<^verbatim>\<open>sendUserData\<close> (the source has it twice): the new storage, the errors passed to
  \<^verbatim>\<open>logError\<close> by the \<^verbatim>\<open>catch\<close> block, and the final value of \<^verbatim>\<open>coreId\<close>.
\<close>

definition handleResponse ::
  "(string \<Rightarrow> response_obj option) \<Rightarrow> storage \<Rightarrow> int \<Rightarrow> jsval \<Rightarrow> string
     \<Rightarrow> storage \<times> string list \<times> jsval" where
  "handleResponse parse st now clientId response =
     (if response \<noteq> [] then
        (case parse response of
           None \<Rightarrow> (st, [''SyntaxError''], JUndefined)
         | Some responseObj \<Rightarrow>
             (let consentIsErrorFree =
                    (\<not> (isArray (errors responseObj)
                        \<and> arrayIndexOfFound (errors responseObj) (JNum MISSING_CORE_CONSENT)));
                  r = processResponseIDs st now (profile_id responseObj) (core_id responseObj)
                        clientId (no_consent responseObj) (expiry_ts responseObj)
                        consentIsErrorFree
              in (fst r, [], snd r)))
      else (st, [], JUndefined))"

text \<open>
  The success handler of the \<^verbatim>\<open>/id\<close> request ends with \<^verbatim>\<open>callback(coreId)\<close>: the
  third component is the argument the caller's callback receives.
\<close>

definition idRequestSuccess ::
  "(string \<Rightarrow> response_obj option) \<Rightarrow> storage \<Rightarrow> int \<Rightarrow> jsval \<Rightarrow> string
     \<Rightarrow> storage \<times> string list \<times> jsval" where
  "idRequestSuccess parse st now clientId response = handleResponse parse st now clientId response"

text \<open>The success handler of \<^verbatim>\<open>sendUserData\<close> drops the value of \<^verbatim>\<open>coreId\<close>.\<close>

definition sendUserDataSuccess ::
  "(string \<Rightarrow> response_obj option) \<Rightarrow> storage \<Rightarrow> int \<Rightarrow> jsval \<Rightarrow> string
     \<Rightarrow> storage \<times> string list" where
  "sendUserDataSuccess parse st now clientId response =
     (let r = handleResponse parse st now clientId response in (fst r, fst (snd r)))"

subsection \<open>The submodule: \<^verbatim>\<open>sendUserData\<close>, \<^verbatim>\<open>decode\<close> and \<^verbatim>\<open>getId\<close>\<close>

record config_params =
  clientId :: jsval
  hems :: jsval

record ajax_request =
  ajaxMethod :: string
  ajaxHost :: string
  ajaxPathname :: string
  ajaxData :: "(string \<times> jsval) list"

text \<open>
  \<^verbatim>\<open>sendUserData(configParams)\<close>: the request it passes to \<^verbatim>\<open>ajax\<close>, or \<open>None\<close> when
  it issues none.
\<close>

definition sendUserData :: "config_params \<Rightarrow> ajax_request option" where
  "sendUserData configParams =
     (let hem0 = (if isEmpty (hems configParams) then JUndefined else hems configParams);
          hem = (case hem0 of
                   JArr xs \<Rightarrow> (case xs of [] \<Rightarrow> JUndefined | x # _ \<Rightarrow> x)
                 | _ \<Rightarrow> hem0)
      in if \<not> isEmpty (clientId configParams) \<and> \<not> isEmpty hem
         then Some \<lparr>ajaxMethod = ''POST'',
                    ajaxHost = ''lightning.com-local'',
                    ajaxPathname = ''/src/test/generated-html/prebid-HEM-response.js'',
                    ajaxData = [(''c'', clientId configParams), (''did'', hem)]\<rparr>
         else None)"

definition decode :: "jsval \<Rightarrow> (string \<times> jsval) list option" where
  "decode v = (if isStr v then Some [(''lotamePanoramaId'', v)] else None)"

text \<open>
  The variables that the function \<^verbatim>\<open>resolveIdFunction\<close> captures when \<^verbatim>\<open>getId\<close>
  builds it.
\<close>

record resolve_closure =
  closureLocalCache :: lotame_cache
  closureStoredUserId :: "string option"
  closureHasCustomClientId :: bool
  closureClientId :: jsval
  closureConsentData :: "consent_data option"

datatype id_response =
    IdResponse string
  | IdUndefined string
  | CallbackResponse resolve_closure

text \<open>
  \<^verbatim>\<open>getId(config, consentData)\<close> on the parameters \<^verbatim>\<open>(config && config.params) || {}\<close>:
  the object it returns, and the requests it has passed to \<^verbatim>\<open>ajax\<close> before returning.
\<close>

definition getId ::
  "storage \<Rightarrow> int \<Rightarrow> config_params \<Rightarrow> consent_data option \<Rightarrow> id_response \<times> ajax_request list" where
  "getId st now configParams consentData =
     (let hasCustomClientId = \<not> isEmpty (clientId configParams);
          localCache = getLotameLocalCache st now (clientId configParams)
      in if hasCustomClientId \<and> jsless (Num now) (clientExpiryTimestampMs localCache)
         then (IdUndefined ''NO_CLIENT_CONSENT'', [])
         else
           (let sent = (case sendUserData configParams of None \<Rightarrow> [] | Some r \<Rightarrow> [r])
            in case getCurrentPanoId now localCache of
                 Some currentPanoId \<Rightarrow> (IdResponse currentPanoId, sent)
               | None \<Rightarrow>
                   (CallbackResponse
                      \<lparr>closureLocalCache = localCache,
                       closureStoredUserId = getProfileId st now,
                       closureHasCustomClientId = hasCustomClientId,
                       closureClientId = clientId configParams,
                       closureConsentData = consentData\<rparr>, sent)))"

text \<open>
  A call of \<^verbatim>\<open>resolveIdFunction(callback)\<close>, at a later time and on the storage of that
  time: either the callback is called at once with an id, or the \<^verbatim>\<open>/id\<close> request is
  passed to \<^verbatim>\<open>ajax\<close>.
\<close>

datatype resolve_step =
    CallbackCalled string
  | RequestIssued ajax_request

definition resolveIdFunction ::
  "environment \<Rightarrow> resolve_closure \<Rightarrow> storage \<Rightarrow> int \<Rightarrow> resolve_step" where
  "resolveIdFunction env c st now =
     (case getCurrentPanoId now (closureLocalCache c) of
        Some currentPanoId \<Rightarrow> CallbackCalled currentPanoId
      | None \<Rightarrow>
          (let q1 = (if truthy (ofStored (closureStoredUserId c))
                     then [(''fp'', ofStored (closureStoredUserId c))] else []);
               q2 = (if closureHasCustomClientId c
                     then q1 @ [(''c'', closureClientId c)] else q1);
               queryParams = q2 @ getConsentParameters env st now (closureConsentData c)
           in RequestIssued \<lparr>ajaxMethod = ''GET'',
                             ajaxHost = getRequestHost env,
                             ajaxPathname = ''/id'',
                             ajaxData = queryParams\<rparr>))"

section \<open>Example storages\<close>

definition emptyStorage :: storage where
  "emptyStorage = \<lparr>cookiesEnabled = True, localStorageEnabled = True,
                    cookies = Map.empty, localStorageData = Map.empty\<rparr>"

text \<open>A CoreId \<^verbatim>\<open>abc\<close> with its expiry record 5000, both in cookies that live until 9000.\<close>

definition cachedStorage :: storage where
  "cachedStorage =
     \<lparr>cookiesEnabled = True, localStorageEnabled = True,
      cookies = [''panoramaId'' \<mapsto> (''abc'', 9000), ''panoramaId_expiry'' \<mapsto> (''5000'', 9000)],
      localStorageData = Map.empty\<rparr>"

text \<open>The same, with a suppression window until 5000 for the client \<^verbatim>\<open>7\<close>.\<close>

definition suppressedStorage :: storage where
  "suppressedStorage =
     \<lparr>cookiesEnabled = True, localStorageEnabled = True,
      cookies = [''panoramaId'' \<mapsto> (''abc'', 9000), ''panoramaId_expiry'' \<mapsto> (''5000'', 9000),
                 ''panoramaId_expiry_7'' \<mapsto> (''5000'', 5000)],
      localStorageData = Map.empty\<rparr>"

text \<open>A CoreId without its expiry record.\<close>

definition idOnlyStorage :: storage where
  "idOnlyStorage =
     \<lparr>cookiesEnabled = True, localStorageEnabled = True,
      cookies = [''panoramaId'' \<mapsto> (''abc'', 9000)],
      localStorageData = Map.empty\<rparr>"

text \<open>
  The parsed form of a response that reports missing consent for the client, and of the
  response of the scenario in the spec.
\<close>

definition clientNoConsentResponse :: response_obj where
  "clientNoConsentResponse =
     \<lparr>profile_id = JStr ''p1'', core_id = JStr ''abc'', no_consent = JStr ''CLIENT'',
      expiry_ts = Some 5000, errors = JArr [JNum 111]\<rparr>"

definition clientNoConsentNoExpiryResponse :: response_obj where
  "clientNoConsentNoExpiryResponse =
     \<lparr>profile_id = JStr ''p1'', core_id = JStr ''abc'', no_consent = JStr ''CLIENT'',
      expiry_ts = None, errors = JArr [JNum 111]\<rparr>"

definition grantedResponse :: response_obj where
  "grantedResponse =
     \<lparr>profile_id = JStr ''p1'', core_id = JStr ''abc'', no_consent = JUndefined,
      expiry_ts = Some 5000, errors = JArr []\<rparr>"

text \<open>Storages in which an expiry record does not hold a number.\<close>

definition malformedClientExpiryStorage :: storage where
  "malformedClientExpiryStorage =
     \<lparr>cookiesEnabled = True, localStorageEnabled = True,
      cookies = [''panoramaId'' \<mapsto> (''abc'', 9000), ''panoramaId_expiry'' \<mapsto> (''5000'', 9000),
                 ''panoramaId_expiry_7'' \<mapsto> (''soon'', 9000)],
      localStorageData = Map.empty\<rparr>"

definition malformedExpiryStorage :: storage where
  "malformedExpiryStorage =
     \<lparr>cookiesEnabled = True, localStorageEnabled = True,
      cookies = [''panoramaId'' \<mapsto> (''abc'', 9000), ''panoramaId_expiry'' \<mapsto> (''soon'', 9000)],
      localStorageData = Map.empty\<rparr>"

text \<open>
  A browser, a configuration with a client id and a hashed identifier, the request that
  \<^verbatim>\<open>sendUserData\<close> issues for it, and the variables captured by the deferred callback
  that \<^verbatim>\<open>getId\<close> returns for it on the empty storage.
\<close>

definition exampleEnvironment :: environment where
  "exampleEnvironment = \<lparr>userAgent = ''Mozilla/5.0 Chrome/120.0 Safari/537.36'', uspConsentData = JUndefined\<rparr>"

definition hemConfig :: config_params where
  "hemConfig = \<lparr>clientId = JStr ''7'', hems = JStr ''h''\<rparr>"

definition hemRequest :: ajax_request where
  "hemRequest = \<lparr>ajaxMethod = ''POST'', ajaxHost = ''lightning.com-local'',
                  ajaxPathname = ''/src/test/generated-html/prebid-HEM-response.js'',
                  ajaxData = [(''c'', JStr ''7''), (''did'', JStr ''h'')]\<rparr>"

definition staleClosure :: resolve_closure where
  "staleClosure =
     \<lparr>closureLocalCache = \<lparr>data = None, expiryTimestampMs = Num 0, clientExpiryTimestampMs = Num 0\<rparr>,
      closureStoredUserId = None, closureHasCustomClientId = True,
      closureClientId = JStr ''7'', closureConsentData = None\<rparr>"

section \<open>Decimal numerals are read back\<close>

lemma digitChar_props:
  assumes "d < 10"
  shows "isDigit (digitChar d)" "digitVal (digitChar d) = d" "\<not> isSpace (digitChar d)"
    "digitChar d \<noteq> CHR ''-''" "digitChar d \<noteq> CHR ''+''"
proof -
  from assms have "d \<in> {0,1,2,3,4,5,6,7,8,9}" by auto
  then show "isDigit (digitChar d)" "digitVal (digitChar d) = d" "\<not> isSpace (digitChar d)"
    "digitChar d \<noteq> CHR ''-''" "digitChar d \<noteq> CHR ''+''"
    by (auto simp: isDigit_def digitChar_def digitVal_def isSpace_def)
qed

lemma showNat_digits: "\<forall>c \<in> set (showNat n). isDigit c"
proof (induction n rule: showNat.induct)
  case (1 n)
  show ?case
  proof (cases "n < 10")
    case True
    then show ?thesis by (subst showNat.simps) (simp add: digitChar_props)
  next
    case False
    with 1 show ?thesis by (subst showNat.simps) (simp add: digitChar_props)
  qed
qed

lemma showNat_nonempty: "showNat n \<noteq> []"
  by (subst showNat.simps) simp

lemma readDigits_append:
  "\<forall>c \<in> set xs. isDigit c \<Longrightarrow> readDigits acc (xs @ ys) = readDigits (readDigits acc xs) ys"
  by (induction xs arbitrary: acc) auto

lemma readDigits_showNat: "readDigits acc (showNat n) = acc * 10 ^ length (showNat n) + n"
proof (induction n arbitrary: acc rule: showNat.induct)
  case (1 n)
  show ?case
  proof (cases "n < 10")
    case True
    then show ?thesis by (subst (1 2) showNat.simps) (simp add: digitChar_props)
  next
    case False
    have "readDigits acc (showNat n) = readDigits acc (showNat (n div 10) @ [digitChar (n mod 10)])"
      using False by (subst showNat.simps) simp
    also have "\<dots> = readDigits (readDigits acc (showNat (n div 10))) [digitChar (n mod 10)]"
      by (rule readDigits_append) (rule showNat_digits)
    also have "\<dots> = (acc * 10 ^ length (showNat (n div 10)) + n div 10) * 10 + n mod 10"
      using 1[OF False] by (simp add: digitChar_props)
    also have "\<dots> = acc * 10 ^ length (showNat n) + n"
      using False by (subst (2) showNat.simps) (simp add: algebra_simps)
    finally show ?thesis .
  qed
qed

lemma parseDigits_showNat: "parseDigits (showNat n) = Some n"
proof -
  obtain c cs where eq: "showNat n = c # cs"
    using showNat_nonempty by (cases "showNat n") auto
  have "isDigit c" using showNat_digits[of n] eq by simp
  moreover have "readDigits 0 (showNat n) = n" by (simp add: readDigits_showNat)
  ultimately show ?thesis using eq by (simp add: parseDigits_def)
qed

lemma skipWhiteSpace_digit: "isDigit c \<Longrightarrow> skipWhiteSpace (c # cs) = c # cs"
proof -
  assume d: "isDigit c"
  then have n: "\<not> isSpace c" "\<And>b. \<not> isSpace2 c b" "\<And>a b. \<not> isSpace3 c a b"
    by (auto simp: isDigit_def isSpace_def isSpace2_def isSpace3_def)
  show ?thesis
  proof (cases cs)
    case Nil
    with n show ?thesis by simp
  next
    case (Cons b bs)
    with n show ?thesis by (cases bs) simp_all
  qed
qed

lemma skipWhiteSpace_minus: "skipWhiteSpace (CHR ''-'' # cs) = CHR ''-'' # cs"
proof -
  have n: "\<not> isSpace CHR ''-''" "\<And>b. \<not> isSpace2 CHR ''-'' b" "\<And>a b. \<not> isSpace3 CHR ''-'' a b"
    by (auto simp: isSpace_def isSpace2_def isSpace3_def)
  show ?thesis
  proof (cases cs)
    case Nil
    with n show ?thesis by simp
  next
    case (Cons b bs)
    with n show ?thesis by (cases bs) simp_all
  qed
qed

lemma isDigit_not_sign: "isDigit c \<Longrightarrow> c \<noteq> CHR ''-'' \<and> c \<noteq> CHR ''+''"
  by (auto simp: isDigit_def)

lemma parseInt_showInt: "parseInt (showInt i) = Num i"
proof (cases "i < 0")
  case True
  then show ?thesis
    by (simp add: parseInt_def showInt_def skipWhiteSpace_minus parseDigits_showNat)
next
  case False
  obtain c cs where eq: "showNat (nat i) = c # cs"
    using showNat_nonempty by (cases "showNat (nat i)") auto
  have d: "isDigit c" using showNat_digits[of "nat i"] eq by simp
  have "parseDigits (c # cs) = Some (nat i)" using parseDigits_showNat[of "nat i"] eq by simp
  with False d eq isDigit_not_sign[OF d] show ?thesis
    by (simp add: parseInt_def showInt_def skipWhiteSpace_digit)
qed

lemma showInt_nonempty: "showInt i \<noteq> []"
  by (simp add: showInt_def showNat_nonempty)

section \<open>Properties of the module\<close>

lemmas storage_defs = saveLotameCache_def clearLotameCache_def setProfileId_def getFromStorage_def
  getProfileId_def getCookie_def setCookie_def getDataFromLocalStorage_def setDataInLocalStorage_def
  removeDataFromLocalStorage_def cookiesAreEnabled_def hasLocalStorage_def

lemmas key_defs = KEY_ID_def KEY_EXPIRY_def KEY_PROFILE_def

lemmas numeral_defs = parseInt_def parseDigits_def isDigit_def digitVal_def isSpace_def
  isSpace2_def isSpace3_def showInt_def showNat.simps digitChar_def

subsection \<open>The scenario of the spec\<close>

text \<open>
  The walk through the module that the spec gives as a scenario, evaluated on the model:
  with a consent object, no cache and no client id, \<^verbatim>\<open>getId\<close> returns the deferred
  callback, which requests \<^verbatim>\<open>/id\<close> with the two consent parameters; the granted
  response gives the callback the CoreId and leaves the CoreId, its expiry record and the
  ProfileId in the storage.
\<close>

lemma scenario_request:
  "getId emptyStorage 1000 \<lparr>clientId = JUndefined, hems = JUndefined\<rparr>
     (Some \<lparr>gdprApplies = JBool True, consentString = JStr ''CONSENTSTR''\<rparr>)
   = (CallbackResponse
        \<lparr>closureLocalCache = \<lparr>data = None, expiryTimestampMs = Num 0,
                               clientExpiryTimestampMs = Num 0\<rparr>,
         closureStoredUserId = None, closureHasCustomClientId = False,
         closureClientId = JUndefined,
         closureConsentData = Some \<lparr>gdprApplies = JBool True, consentString = JStr ''CONSENTSTR''\<rparr>\<rparr>,
      [])
   \<and> resolveIdFunction exampleEnvironment
        \<lparr>closureLocalCache = \<lparr>data = None, expiryTimestampMs = Num 0,
                               clientExpiryTimestampMs = Num 0\<rparr>,
         closureStoredUserId = None, closureHasCustomClientId = False,
         closureClientId = JUndefined,
         closureConsentData = Some \<lparr>gdprApplies = JBool True, consentString = JStr ''CONSENTSTR''\<rparr>\<rparr>
        emptyStorage 1000
     = RequestIssued \<lparr>ajaxMethod = ''GET'', ajaxHost = ''id.crwdcntrl.net'', ajaxPathname = ''/id'',
                      ajaxData = [(''gdpr_applies'', JBool True),
                                  (''gdpr_consent'', JStr ''CONSENTSTR'')]\<rparr>"
  by (simp add: getId_def resolveIdFunction_def getConsentParameters_def getRequestHost_def
      useCookieless_def ID_HOST_def exampleEnvironment_def Let_def isEmpty_def isEmptyStr_def
      sendUserData_def getCurrentPanoId_def ofStored_def getLotameLocalCache_def emptyStorage_def
      storage_defs)

lemma scenario_response:
  "snd (snd (idRequestSuccess (\<lambda>b. Some grantedResponse) emptyStorage 1000 JUndefined ''{}''))
     = JStr ''abc''
   \<and> getFromStorage
        (fst (idRequestSuccess (\<lambda>b. Some grantedResponse) emptyStorage 1000 JUndefined ''{}''))
        1500 KEY_ID = Some ''abc''
   \<and> getFromStorage
        (fst (idRequestSuccess (\<lambda>b. Some grantedResponse) emptyStorage 1000 JUndefined ''{}''))
        1500 KEY_EXPIRY = Some ''5000''
   \<and> getProfileId
        (fst (idRequestSuccess (\<lambda>b. Some grantedResponse) emptyStorage 1000 JUndefined ''{}''))
        1500 = Some ''p1''"
  by (simp add: idRequestSuccess_def handleResponse_def grantedResponse_def processResponseIDs_def
      storeResponseIDs_def Let_def isEmpty_def ofNumber_def emptyStorage_def storage_defs key_defs
      numeral_defs toUTCString_def NINE_MONTHS_MS_def ofStored_def)

subsection \<open>Suppression comes before a cached id\<close>

text \<open>
  When \<^verbatim>\<open>getId\<close> is called with a client id that \<^verbatim>\<open>isEmpty\<close> rejects, a non-empty
  string, and the loaded cache holds a client suppression expiry later than now, it
  returns \<^verbatim>\<open>{id: undefined, reason: 'NO_CLIENT_CONSENT'}\<close> at once and passes no request
  to \<^verbatim>\<open>ajax\<close>, whatever else the cache holds, a fresh CoreId included.
\<close>

lemma getId_suppression_precedence:
  assumes "\<not> isEmpty (clientId configParams)"
    and "clientExpiryTimestampMs (getLotameLocalCache st now (clientId configParams)) = Num e"
    and "now < e"
  shows "getId st now configParams consentData = (IdUndefined ''NO_CLIENT_CONSENT'', [])"
  using assms by (simp add: getId_def Let_def)

lemma getId_suppression_precedence_example:
  "\<not> isEmpty (JStr ''7'')
   \<and> getCurrentPanoId 1500 (getLotameLocalCache suppressedStorage 1500 (JStr ''7'')) = Some ''abc''
   \<and> clientExpiryTimestampMs (getLotameLocalCache suppressedStorage 1500 (JStr ''7'')) = Num 5000
   \<and> getId suppressedStorage 1500 \<lparr>clientId = JStr ''7'', hems = JStr ''h''\<rparr> None
       = (IdUndefined ''NO_CLIENT_CONSENT'', [])"
proof -
  have a: "\<not> isEmpty (clientId \<lparr>clientId = JStr ''7'', hems = JStr ''h''\<rparr>)"
    by (simp add: isEmpty_def)
  have b: "clientExpiryTimestampMs
             (getLotameLocalCache suppressedStorage 1500
                (clientId \<lparr>clientId = JStr ''7'', hems = JStr ''h''\<rparr>)) = Num 5000"
    by (simp add: getLotameLocalCache_def suppressedStorage_def storage_defs key_defs numeral_defs)
  have c: "getCurrentPanoId 1500 (getLotameLocalCache suppressedStorage 1500 (JStr ''7'')) = Some ''abc''"
    by (simp add: getCurrentPanoId_def getLotameLocalCache_def suppressedStorage_def storage_defs
        key_defs numeral_defs isEmpty_def ofStored_def)
  have d: "(1500::int) < 5000" by simp
  show ?thesis using getId_suppression_precedence[OF a b d, of None] a b c by simp
qed

text \<open>
  C2 says that every \<^verbatim>\<open>getId\<close> call with a configured client id whose cached
  suppression expiry is in the future returns
  \<^verbatim>\<open>{id: undefined, reason: 'NO_CLIENT_CONSENT'}\<close>. For a numeric client id, the type
  that the documentation of \<^verbatim>\<open>getLotameLocalCache\<close> gives, the code does not:
  \<^verbatim>\<open>getLotameLocalCache(7)\<close> loads the suppression expiry 5000 of the client, but
  \<^verbatim>\<open>isEmpty(7)\<close> is true, so \<^verbatim>\<open>getId\<close> at 1500 skips the suppression test and returns
  the cached id.
\<close>

theorem getId_numeric_clientId_not_suppressed:
  "clientExpiryTimestampMs (getLotameLocalCache suppressedStorage 1500 (JNum 7)) = Num 5000
   \<and> fst (getId suppressedStorage 1500 \<lparr>clientId = JNum 7, hems = JUndefined\<rparr> None)
       = IdResponse ''abc''"
  by (simp add: getId_def Let_def getCurrentPanoId_def getLotameLocalCache_def isEmpty_def
      ofStored_def suppressedStorage_def storage_defs key_defs numeral_defs)

subsection \<open>Writing a value and reading it back\<close>

lemma getFromStorage_after_save:
  assumes "key \<noteq> []" "v \<noteq> []" "cookiesEnabled st" "localStorageEnabled st"
  shows "getFromStorage
           ((saveLotameCache st now key (JStr v) (Some T))
              \<lparr>cookiesEnabled := c, localStorageEnabled := l\<rparr>) t key
         = (if c \<and> t < toUTCString T then Some v
            else if l \<and> t < T then Some v
            else None)"
  using assms by (simp add: storage_defs parseInt_showInt showInt_nonempty)

lemma toUTCString_le: "toUTCString t \<le> t"
  by (simp add: toUTCString_def)

text \<open>
  C7, as the code has it: let a non-empty value be written under a non-empty key at time
  \<open>now\<close> with the expiry \<open>now + 1000\<close>, both backends being enabled, and let the backends then
  be enabled or disabled in any way. A read at \<open>now + 500\<close> returns the value whenever
  local storage is enabled; with cookies alone it returns the value only if \<open>now + 500\<close>
  is before the expiry cut to whole seconds, which is when the cookie expires, and
  \<^verbatim>\<open>null\<close> otherwise. A read at \<open>now + 2000\<close> returns \<^verbatim>\<open>null\<close>.
\<close>

theorem saveLotameCache_round_trip:
  assumes "key \<noteq> []" "v \<noteq> []" "cookiesEnabled st" "localStorageEnabled st"
  shows "getFromStorage
           ((saveLotameCache st now key (JStr v) (Some (now + 1000)))
              \<lparr>cookiesEnabled := c, localStorageEnabled := True\<rparr>) (now + 500) key = Some v
       \<and> getFromStorage
           ((saveLotameCache st now key (JStr v) (Some (now + 1000)))
              \<lparr>cookiesEnabled := True, localStorageEnabled := False\<rparr>) (now + 500) key
         = (if now + 500 < toUTCString (now + 1000) then Some v else None)
       \<and> getFromStorage
           ((saveLotameCache st now key (JStr v) (Some (now + 1000)))
              \<lparr>cookiesEnabled := c, localStorageEnabled := l\<rparr>) (now + 2000) key = None"
proof -
  have "toUTCString (now + 1000) \<le> now + 1000" by (rule toUTCString_le)
  then show ?thesis by (simp add: getFromStorage_after_save[OF assms])
qed

theorem saveLotameCache_round_trip_witness:
  "''k'' \<noteq> [] \<and> ''v'' \<noteq> [] \<and> cookiesEnabled emptyStorage \<and> localStorageEnabled emptyStorage
   \<and> getFromStorage
       ((saveLotameCache emptyStorage 0 ''k'' (JStr ''v'') (Some (0 + 1000)))
          \<lparr>cookiesEnabled := False, localStorageEnabled := True\<rparr>) (0 + 500) ''k'' = Some ''v''
   \<and> getFromStorage
       ((saveLotameCache emptyStorage 0 ''k'' (JStr ''v'') (Some (0 + 1000)))
          \<lparr>cookiesEnabled := True, localStorageEnabled := False\<rparr>) (0 + 500) ''k'' = Some ''v''
   \<and> getFromStorage
       ((saveLotameCache emptyStorage 0 ''k'' (JStr ''v'') (Some (0 + 1000)))
          \<lparr>cookiesEnabled := False, localStorageEnabled := True\<rparr>) (0 + 2000) ''k'' = None"
proof -
  have h: "''k'' \<noteq> []" "''v'' \<noteq> []" "cookiesEnabled emptyStorage" "localStorageEnabled emptyStorage"
    by (simp_all add: emptyStorage_def)
  show ?thesis
    using saveLotameCache_round_trip[OF h, where now = 0 and c = False and l = True] h
    by (simp add: toUTCString_def)
qed

text \<open>
  The claim C7 as the spec states it fails with cookies alone: a value written at 600 with
  the expiry 1600 gets a cookie that expires at 1000, so that the read at 1100 finds
  nothing once local storage is disabled.
\<close>

theorem saveLotameCache_round_trip_counterexample:
  "getFromStorage
     ((saveLotameCache emptyStorage 600 ''k'' (JStr ''v'') (Some (600 + 1000)))
        \<lparr>localStorageEnabled := False\<rparr>) (600 + 500) ''k'' \<noteq> Some ''v''"
  by (simp add: storage_defs emptyStorage_def toUTCString_def)

subsection \<open>Freshness of the cached id\<close>

text \<open>
  On the loaded cache: when it holds a non-empty id and the expiry \<open>expiry\<close>, and the
  suppression window of the configured client is not active, \<^verbatim>\<open>getId\<close> returns the id
  synchronously if and only if \<open>now \<le> expiry\<close>.
\<close>

lemma getId_fresh_iff:
  assumes "data (getLotameLocalCache st now (clientId configParams)) = Some panoId"
    and "panoId \<noteq> []"
    and "expiryTimestampMs (getLotameLocalCache st now (clientId configParams)) = Num expiry"
    and "\<not> (\<not> isEmpty (clientId configParams)
            \<and> jsless (Num now)
                 (clientExpiryTimestampMs (getLotameLocalCache st now (clientId configParams))))"
  shows "(fst (getId st now configParams consentData) = IdResponse panoId \<longleftrightarrow> now \<le> expiry)
       \<and> (\<not> now \<le> expiry \<longrightarrow>
            (\<exists>c. fst (getId st now configParams consentData) = CallbackResponse c))
       \<and> (getCurrentPanoId now (getLotameLocalCache st now (clientId configParams)) = Some panoId
            \<longleftrightarrow> now \<le> expiry)"
  using assms
  by (auto simp: getId_def Let_def getCurrentPanoId_def isEmpty_def ofStored_def split: option.splits)

lemma getId_fresh_iff_example:
  "data (getLotameLocalCache cachedStorage 5000 JUndefined) = Some ''abc''
   \<and> expiryTimestampMs (getLotameLocalCache cachedStorage 5000 JUndefined) = Num 5000
   \<and> fst (getId cachedStorage 5000 \<lparr>clientId = JUndefined, hems = JUndefined\<rparr> None)
       = IdResponse ''abc''
   \<and> (5000::int) \<le> 5000"
proof -
  let ?p = "\<lparr>clientId = JUndefined, hems = JUndefined\<rparr>"
  have a: "data (getLotameLocalCache cachedStorage 5000 (clientId ?p)) = Some ''abc''"
    by (simp add: getLotameLocalCache_def cachedStorage_def storage_defs key_defs numeral_defs)
  have b: "''abc'' \<noteq> []" by simp
  have c: "expiryTimestampMs (getLotameLocalCache cachedStorage 5000 (clientId ?p)) = Num 5000"
    by (simp add: getLotameLocalCache_def cachedStorage_def storage_defs key_defs numeral_defs)
  have d: "\<not> (\<not> isEmpty (clientId ?p)
            \<and> jsless (Num 5000)
                 (clientExpiryTimestampMs (getLotameLocalCache cachedStorage 5000 (clientId ?p))))"
    by (simp add: isEmpty_def)
  show ?thesis using getId_fresh_iff[OF a b c d, of None] a c by simp
qed

text \<open>
  C10: when a CoreId is stored and the read of the global expiry record yields
  \<^verbatim>\<open>null\<close>, the loaded expiry stays at its initial 0; at any time after the epoch the
  stored id then counts as expired, \<^verbatim>\<open>getId\<close> does not return an id synchronously, and
  unless the suppression window of the client is active it returns the deferred callback.
\<close>

theorem getId_without_expiry_record:
  assumes "0 < now"
    and "getFromStorage st now KEY_ID = Some panoId"
    and "getFromStorage st now KEY_EXPIRY = None"
  shows "expiryTimestampMs (getLotameLocalCache st now (clientId configParams)) = Num 0
       \<and> getCurrentPanoId now (getLotameLocalCache st now (clientId configParams)) = None
       \<and> (\<forall>i. fst (getId st now configParams consentData) \<noteq> IdResponse i)
       \<and> (\<not> (\<not> isEmpty (clientId configParams)
               \<and> jsless (Num now)
                    (clientExpiryTimestampMs (getLotameLocalCache st now (clientId configParams))))
            \<longrightarrow> (\<exists>c. fst (getId st now configParams consentData) = CallbackResponse c))"
  using assms
  by (auto simp: getId_def Let_def getCurrentPanoId_def getLotameLocalCache_def split: option.splits)

theorem getId_without_expiry_record_witness:
  "(0::int) < 1500 \<and> getFromStorage idOnlyStorage 1500 KEY_ID = Some ''abc''
   \<and> getFromStorage idOnlyStorage 1500 KEY_EXPIRY = None
   \<and> (\<exists>c. fst (getId idOnlyStorage 1500 \<lparr>clientId = JUndefined, hems = JUndefined\<rparr> None)
            = CallbackResponse c)"
proof -
  let ?p = "\<lparr>clientId = JUndefined, hems = JUndefined\<rparr>"
  have a: "(0::int) < 1500" by simp
  have b: "getFromStorage idOnlyStorage 1500 KEY_ID = Some ''abc''"
    by (simp add: idOnlyStorage_def storage_defs key_defs)
  have c: "getFromStorage idOnlyStorage 1500 KEY_EXPIRY = None"
    by (simp add: idOnlyStorage_def storage_defs key_defs)
  have d: "isEmpty (clientId ?p)" by (simp add: isEmpty_def)
  show ?thesis using getId_without_expiry_record[OF a b c, of ?p None] a b c d by simp
qed

subsection \<open>What the storage operations write\<close>

lemma key_distinct:
  "KEY_ID \<noteq> KEY_PROFILE" "KEY_ID @ ''_exp'' \<noteq> KEY_PROFILE" "KEY_PROFILE \<noteq> KEY_ID"
  "KEY_PROFILE \<noteq> KEY_ID @ ''_exp''" "KEY_ID \<noteq> []" "KEY_PROFILE \<noteq> []" "KEY_EXPIRY \<noteq> []"
  "KEY_EXPIRY \<noteq> KEY_ID" "KEY_EXPIRY \<noteq> KEY_PROFILE" "KEY_EXPIRY @ ''_exp'' \<noteq> KEY_ID"
  "KEY_EXPIRY @ ''_exp'' \<noteq> KEY_PROFILE" "KEY_EXPIRY \<noteq> KEY_ID @ ''_exp''"
  "KEY_EXPIRY @ ''_exp'' \<noteq> KEY_ID @ ''_exp''" 
  by (simp_all add: key_defs)

lemma isStr_conv: "isStr v \<longleftrightarrow> (\<exists>s. v = JStr s)"
  by (cases v) simp_all

lemma saveLotameCache_parts:
  "cookiesEnabled (saveLotameCache st now k v x) = cookiesEnabled st"
  "localStorageEnabled (saveLotameCache st now k v x) = localStorageEnabled st"
  "cookies (saveLotameCache st now k v x) =
     (if k \<noteq> [] \<and> truthy v \<and> cookiesEnabled st
      then (cookies st)(k \<mapsto> (toStr v, toUTCString ((case x of None \<Rightarrow> now + DAYS_TO_CACHE * DAY_MS | Some t \<Rightarrow> t)))) else cookies st)"
  "localStorageData (saveLotameCache st now k v x) =
     (if k \<noteq> [] \<and> truthy v \<and> localStorageEnabled st
      then (localStorageData st)(k @ ''_exp'' \<mapsto> showInt ((case x of None \<Rightarrow> now + DAYS_TO_CACHE * DAY_MS | Some t \<Rightarrow> t)), k \<mapsto> toStr v)
      else localStorageData st)"
  by (simp_all add: storage_defs Let_def)

lemma clearLotameCache_parts:
  "cookiesEnabled (clearLotameCache st k) = cookiesEnabled st"
  "localStorageEnabled (clearLotameCache st k) = localStorageEnabled st"
  "cookies (clearLotameCache st k) =
     (if k \<noteq> [] \<and> cookiesEnabled st then (cookies st)(k \<mapsto> ([], 0)) else cookies st)"
  "localStorageData (clearLotameCache st k) =
     (if k \<noteq> [] \<and> localStorageEnabled st then (localStorageData st)(k := None)
      else localStorageData st)"
  by (simp_all add: storage_defs toUTCString_def Let_def)

lemma setProfileId_parts:
  "cookiesEnabled (setProfileId st now p) = cookiesEnabled st"
  "localStorageEnabled (setProfileId st now p) = localStorageEnabled st"
  "cookies (setProfileId st now p) =
     (if cookiesEnabled st
      then (cookies st)(KEY_PROFILE \<mapsto> (p, toUTCString (now + NINE_MONTHS_MS))) else cookies st)"
  "localStorageData (setProfileId st now p) =
     (if localStorageEnabled st then (localStorageData st)(KEY_PROFILE \<mapsto> p)
      else localStorageData st)"
  by (simp_all add: storage_defs Let_def)

lemmas parts = saveLotameCache_parts clearLotameCache_parts setProfileId_parts

lemma clientKey_distinct:
  "KEY_EXPIRY @ ''_'' @ s \<noteq> KEY_ID" "KEY_EXPIRY @ ''_'' @ s \<noteq> KEY_EXPIRY"
  "KEY_EXPIRY @ ''_'' @ s \<noteq> KEY_PROFILE" "KEY_EXPIRY @ ''_'' @ s \<noteq> KEY_ID @ ''_exp''"
  "(KEY_EXPIRY @ ''_'' @ s) @ ''_exp'' \<noteq> KEY_ID" "(KEY_EXPIRY @ ''_'' @ s) @ ''_exp'' \<noteq> KEY_EXPIRY"
  "(KEY_EXPIRY @ ''_'' @ s) @ ''_exp'' \<noteq> KEY_PROFILE" "(KEY_EXPIRY @ ''_'' @ s) @ ''_exp'' \<noteq> KEY_ID @ ''_exp''"
  "(KEY_EXPIRY @ ''_'' @ s) @ ''_exp'' \<noteq> KEY_EXPIRY @ ''_exp''"
  by (simp_all add: key_defs)

lemma getFromStorage_frame:
  assumes "cookiesEnabled st' = cookiesEnabled st" "localStorageEnabled st' = localStorageEnabled st"
    and "cookies st' k = cookies st k" "localStorageData st' k = localStorageData st k"
    and "localStorageData st' (k @ ''_exp'') = localStorageData st (k @ ''_exp'')"
  shows "getFromStorage st' t k = getFromStorage st t k"
  unfolding getFromStorage_def getCookie_def getDataFromLocalStorage_def cookiesAreEnabled_def
    hasLocalStorage_def assms ..

lemma getProfileId_frame:
  assumes "cookiesEnabled st' = cookiesEnabled st" "localStorageEnabled st' = localStorageEnabled st"
    and "cookies st' KEY_PROFILE = cookies st KEY_PROFILE"
    and "localStorageData st' KEY_PROFILE = localStorageData st KEY_PROFILE"
  shows "getProfileId st' t = getProfileId st t"
  unfolding getProfileId_def getCookie_def getDataFromLocalStorage_def cookiesAreEnabled_def
    hasLocalStorage_def assms ..

lemma getFromStorage_cleared:
  assumes "cookiesEnabled s \<longrightarrow> cookies s k = Some ([], 0)"
    and "localStorageEnabled s \<longrightarrow> localStorageData s k = None"
    and "0 \<le> t"
  shows "getFromStorage s t k = None"
  using assms by (auto simp: storage_defs Let_def split: option.splits)

lemma getProfileId_cleared:
  assumes "cookiesEnabled s \<longrightarrow> cookies s KEY_PROFILE = Some ([], 0)"
    and "localStorageEnabled s \<longrightarrow> localStorageData s KEY_PROFILE = None"
    and "0 \<le> t"
  shows "getProfileId s t = None"
  using assms by (auto simp: storage_defs Let_def ofStored_def split: option.splits)

lemma getFromStorage_written:
  assumes "cookiesEnabled s \<longrightarrow> cookies s k = Some (v, toUTCString e)"
    and "localStorageEnabled s \<longrightarrow>
           localStorageData s k = Some v \<and> localStorageData s (k @ ''_exp'') = Some (showInt e)"
    and "cookiesEnabled s \<or> localStorageEnabled s"
    and "t < toUTCString e"
  shows "getFromStorage s t k = Some v"
proof -
  have "t < e" using assms(4) toUTCString_le[of e] by simp
  then show ?thesis
    using assms by (auto simp: storage_defs Let_def parseInt_showInt showInt_nonempty)
qed

subsection \<open>A cached id at its expiry\<close>

lemma getFromStorage_entries:
  assumes "cookies s k = Some (v, toUTCString e)"
    and "localStorageData s k = Some v" "localStorageData s (k @ ''_exp'') = Some (showInt e)"
  shows "getFromStorage s t k
         = (if cookiesEnabled s \<and> t < toUTCString e then Some v
            else if localStorageEnabled s \<and> t < e then Some v
            else None)"
  using assms by (simp add: storage_defs Let_def parseInt_showInt showInt_nonempty)

lemma storeResponseIDs_pair:
  assumes "panoId \<noteq> []" "expiry \<noteq> 0" "cookiesEnabled st" "localStorageEnabled st"
    and "st1 = fst (storeResponseIDs st t0 (JStr prof) (JStr panoId) (Some expiry) errFree)"
  shows "cookies st1 KEY_ID = Some (panoId, toUTCString expiry)"
    "localStorageData st1 KEY_ID = Some panoId"
    "localStorageData st1 (KEY_ID @ ''_exp'') = Some (showInt expiry)"
    "cookies st1 KEY_EXPIRY = Some (showInt expiry, toUTCString expiry)"
    "localStorageData st1 KEY_EXPIRY = Some (showInt expiry)"
    "localStorageData st1 (KEY_EXPIRY @ ''_exp'') = Some (showInt expiry)"
  using assms(1-4) key_distinct unfolding assms(5)
  by (simp_all add: storeResponseIDs_def Let_def parts ofNumber_def)

text \<open>
  C4, as the code has it: let the module have cached a non-empty id with the expiry
  \<open>expiry\<close>, a non-zero time of a valid date, while both backends were enabled, let the
  backends then be enabled or disabled in any way, and let the suppression window of the
  configured client not be active. Then \<^verbatim>\<open>getId\<close> returns the id synchronously if and
  only if the storage still yields it: with local storage if \<open>now < expiry\<close>, with
  cookies if \<open>now\<close> is before the expiry cut to whole seconds. Otherwise, and so at
  \<open>now = expiry\<close> and later, it returns the deferred callback.
\<close>

theorem getId_cached_pair:
  assumes "panoId \<noteq> []" "expiry \<noteq> 0" "validTimestamp expiry"
    and "cookiesEnabled st" "localStorageEnabled st"
    and "st1 = (fst (storeResponseIDs st t0 (JStr prof) (JStr panoId) (Some expiry) errFree))
                  \<lparr>cookiesEnabled := c, localStorageEnabled := l\<rparr>"
    and "\<not> (\<not> isEmpty (clientId configParams)
            \<and> jsless (Num now)
                 (clientExpiryTimestampMs (getLotameLocalCache st1 now (clientId configParams))))"
  shows "(fst (getId st1 now configParams consentData) = IdResponse panoId
            \<longleftrightarrow> (c \<and> now < toUTCString expiry) \<or> (l \<and> now < expiry))
       \<and> (\<not> ((c \<and> now < toUTCString expiry) \<or> (l \<and> now < expiry)) \<longrightarrow>
            (\<exists>closure. fst (getId st1 now configParams consentData) = CallbackResponse closure))
       \<and> (expiry \<le> now \<longrightarrow>
            (\<exists>closure. fst (getId st1 now configParams consentData) = CallbackResponse closure))"
proof -
  note pair = storeResponseIDs_pair[OF assms(1,2,4,5) refl, of t0 prof errFree]
  have flags: "cookiesEnabled st1 = c" "localStorageEnabled st1 = l" by (simp_all add: assms(6))
  have ent: "cookies st1 KEY_ID = Some (panoId, toUTCString expiry)"
    "localStorageData st1 KEY_ID = Some panoId"
    "localStorageData st1 (KEY_ID @ ''_exp'') = Some (showInt expiry)"
    "cookies st1 KEY_EXPIRY = Some (showInt expiry, toUTCString expiry)"
    "localStorageData st1 KEY_EXPIRY = Some (showInt expiry)"
    "localStorageData st1 (KEY_EXPIRY @ ''_exp'') = Some (showInt expiry)"
    using pair by (simp_all add: assms(6))
  let ?R = "(c \<and> now < toUTCString expiry) \<or> (l \<and> now < expiry)"
  have rid: "getFromStorage st1 now KEY_ID = (if ?R then Some panoId else None)"
    by (simp add: getFromStorage_entries[OF ent(1,2,3)] flags)
  have rex: "getFromStorage st1 now KEY_EXPIRY = (if ?R then Some (showInt expiry) else None)"
    by (simp add: getFromStorage_entries[OF ent(4,5,6)] flags)
  have lt: "?R \<Longrightarrow> now < expiry" using toUTCString_le[of expiry] by auto
  let ?lc = "getLotameLocalCache st1 now (clientId configParams)"
  have cur: "getCurrentPanoId now ?lc = (if ?R then Some panoId else None)"
  proof (cases ?R)
    case True
    then have "data ?lc = Some panoId" "expiryTimestampMs ?lc = Num expiry"
      using rid rex by (simp_all add: getLotameLocalCache_def Let_def parseInt_showInt split: option.splits)
    with True lt assms(1) show ?thesis
      by (simp add: getCurrentPanoId_def isEmpty_def ofStored_def)
  next
    case False
    then have "data ?lc = None"
      using rid by (simp add: getLotameLocalCache_def Let_def split: option.splits)
    with False show ?thesis by (simp add: getCurrentPanoId_def isEmpty_def ofStored_def)
  qed
  have res: "fst (getId st1 now configParams consentData)
        = (if ?R then IdResponse panoId
           else CallbackResponse
                  \<lparr>closureLocalCache = ?lc, closureStoredUserId = getProfileId st1 now,
                   closureHasCustomClientId = (\<not> isEmpty (clientId configParams)),
                   closureClientId = clientId configParams, closureConsentData = consentData\<rparr>)"
    using assms(7) cur by (auto simp: getId_def Let_def)
  have "\<not> ?R" if "expiry \<le> now" using that lt by auto
  then show ?thesis using res by auto
qed

theorem getId_cached_pair_witness:
  "fst (getId (fst (storeResponseIDs emptyStorage 1000 (JStr ''p1'') (JStr ''abc'') (Some 5000) True))
          4999 \<lparr>clientId = JUndefined, hems = JUndefined\<rparr> None) = IdResponse ''abc''
   \<and> (\<exists>closure.
         fst (getId ((fst (storeResponseIDs emptyStorage 1000 (JStr ''p1'') (JStr ''abc'') (Some 5500) True))
                       \<lparr>cookiesEnabled := True, localStorageEnabled := False\<rparr>)
                5200 \<lparr>clientId = JUndefined, hems = JUndefined\<rparr> None) = CallbackResponse closure)
   \<and> validTimestamp 5000 \<and> validTimestamp 5500"
proof -
  let ?p = "\<lparr>clientId = JUndefined, hems = JUndefined\<rparr>"
  let ?s = "fst (storeResponseIDs emptyStorage 1000 (JStr ''p1'') (JStr ''abc'') (Some 5000) True)"
  let ?s2 = "fst (storeResponseIDs emptyStorage 1000 (JStr ''p1'') (JStr ''abc'') (Some 5500) True)"
  have a: "''abc'' \<noteq> []" "(5000::int) \<noteq> 0" "validTimestamp 5000" "(5500::int) \<noteq> 0"
    "validTimestamp 5500" "cookiesEnabled emptyStorage" "localStorageEnabled emptyStorage"
    by (simp_all add: validTimestamp_def emptyStorage_def)
  have f: "cookiesEnabled ?s" "localStorageEnabled ?s"
    by (simp_all add: storeResponseIDs_def Let_def parts emptyStorage_def)
  have b: "?s = ?s\<lparr>cookiesEnabled := True, localStorageEnabled := True\<rparr>"
    using f by simp
  have ns: "\<not> (\<not> isEmpty (clientId ?p) \<and> X)" for X by (simp add: isEmpty_def)
  from getId_cached_pair[OF a(1,2,3,6,7) b ns, where now = 4999 and consentData = None]
       getId_cached_pair[OF a(1,4,5,6,7) refl ns, where c = True and l = False and ?t0.0 = 1000
         and prof = "''p1''" and errFree = True and now = 5200 and consentData = None]
  show ?thesis using a by (simp add: toUTCString_def)
qed

text \<open>
  The claim C4 as the spec states it fails at the expiry itself: an id cached with the
  expiry 5000 is not returned by \<^verbatim>\<open>getId\<close> at 5000, because neither backend yields
  it any more.
\<close>

theorem getId_cached_pair_counterexample:
  "fst (getId (fst (storeResponseIDs emptyStorage 1000 (JStr ''p1'') (JStr ''abc'') (Some 5000) True))
          5000 \<lparr>clientId = JUndefined, hems = JUndefined\<rparr> None) \<noteq> IdResponse ''abc''"
proof -
  let ?s = "fst (storeResponseIDs emptyStorage 1000 (JStr ''p1'') (JStr ''abc'') (Some 5000) True)"
  have c: "cookies ?s KEY_ID = Some (''abc'', 5000)" and l: "localStorageData ?s KEY_ID = Some ''abc''"
    and x: "localStorageData ?s (KEY_ID @ ''_exp'') = Some ''5000''"
    and f: "cookiesEnabled ?s" "localStorageEnabled ?s"
    using key_distinct
    by (simp_all add: storeResponseIDs_def Let_def parts emptyStorage_def ofNumber_def
        toUTCString_def numeral_defs)
  have "getFromStorage ?s 5000 KEY_ID = None"
    by (simp add: getFromStorage_def getCookie_def getDataFromLocalStorage_def cookiesAreEnabled_def
        hasLocalStorage_def Let_def c l x f numeral_defs)
  then have "getCurrentPanoId 5000 (getLotameLocalCache ?s 5000 JUndefined) = None"
    by (simp add: getCurrentPanoId_def getLotameLocalCache_def Let_def isEmpty_def ofStored_def
        split: option.splits)
  then show ?thesis by (simp add: getId_def Let_def isEmpty_def)
qed

subsection \<open>Processing a response\<close>

lemma processResponseIDs_client_stop:
  assumes "\<not> isEmpty cid"
  shows "processResponseIDs st now profileId coreId cid (JStr ''CLIENT'') expiry False
         = (saveLotameCache st now (KEY_EXPIRY @ ''_'' @ toStr cid) (ofNumber expiry) expiry,
            JUndefined)"
  using assms by (simp add: processResponseIDs_def)

lemma processResponseIDs_continue:
  assumes "\<not> (\<not> isEmpty cid \<and> \<not> errFree \<and> noConsent = JStr ''CLIENT'')"
  shows "processResponseIDs st now profileId coreId cid noConsent expiry errFree =
     (let st1 = (if \<not> isEmpty cid \<and> errFree
                 then clearLotameCache st (KEY_EXPIRY @ ''_'' @ toStr cid) else st);
          st2 = saveLotameCache st1 now KEY_EXPIRY (ofNumber expiry) expiry
      in if isStr profileId then
           (let st3 = (if errFree then setProfileId st2 now (toStr profileId) else st2)
            in if isStr coreId
               then (saveLotameCache st3 now KEY_ID coreId expiry, coreId)
               else (clearLotameCache st3 KEY_ID, JUndefined))
         else
           (let st3 = (if errFree then clearLotameCache st2 KEY_PROFILE else st2)
            in (clearLotameCache st3 KEY_ID, JUndefined)))"
  using assms by (auto simp: processResponseIDs_def storeResponseIDs_def Let_def)

lemma processResponseIDs_profile_string:
  assumes "\<not> (\<not> isEmpty cid \<and> \<not> errFree \<and> noConsent = JStr ''CLIENT'')"
    and "processResponseIDs st now (JStr p) coreId cid noConsent expiry errFree = (st', returned)"
  shows "st' = (let st1 = (if \<not> isEmpty cid \<and> errFree
                           then clearLotameCache st (KEY_EXPIRY @ ''_'' @ toStr cid) else st);
                    st2 = saveLotameCache st1 now KEY_EXPIRY (ofNumber expiry) expiry;
                    st3 = (if errFree then setProfileId st2 now p else st2)
                in if isStr coreId then saveLotameCache st3 now KEY_ID coreId expiry
                   else clearLotameCache st3 KEY_ID)"
    and "returned = (if isStr coreId then coreId else JUndefined)"
  using assms(2) unfolding processResponseIDs_continue[OF assms(1)] Let_def
  by (auto split: if_splits)

lemma processResponseIDs_profile_other:
  assumes "\<not> (\<not> isEmpty cid \<and> \<not> errFree \<and> noConsent = JStr ''CLIENT'')"
    and "\<not> isStr profileId"
    and "processResponseIDs st now profileId coreId cid noConsent expiry errFree = (st', returned)"
  shows "st' = (let st1 = (if \<not> isEmpty cid \<and> errFree
                           then clearLotameCache st (KEY_EXPIRY @ ''_'' @ toStr cid) else st);
                    st2 = saveLotameCache st1 now KEY_EXPIRY (ofNumber expiry) expiry;
                    st3 = (if errFree then clearLotameCache st2 KEY_PROFILE else st2)
                in clearLotameCache st3 KEY_ID)"
    and "returned = JUndefined"
  using assms(2,3) unfolding processResponseIDs_continue[OF assms(1)] Let_def
  by (auto split: if_splits)

text \<open>
  C3, as the code has it: a response that carries the error code 111 and
  \<^verbatim>\<open>no_consent === "CLIENT"\<close>, with an integer or absent \<^verbatim>\<open>expiry_ts\<close>, is processed
  for a client id that \<^verbatim>\<open>isEmpty\<close> rejects, a non-empty string. When \<^verbatim>\<open>expiry_ts\<close> is
  a non-zero time of a valid date, the suppression entry of that client is written in every
  enabled backend with the value \<^verbatim>\<open>expiry_ts\<close> and with \<^verbatim>\<open>expiry_ts\<close> as its own
  expiry; when \<^verbatim>\<open>expiry_ts\<close> is absent or 0, nothing is written. In every case nothing
  else in the storage changes, in particular not the entries of the CoreId, of the global
  expiry record and of the ProfileId, nor what a read of the CoreId, of the ProfileId and
  (for a client id other than \<^verbatim>\<open>exp\<close>, whose key is the companion key of the expiry
  record) of the global expiry record returns; nothing is logged and the callback receives
  \<^verbatim>\<open>undefined\<close>.
\<close>

theorem client_no_consent_stops:
  assumes "\<not> isEmpty cid"
    and "response \<noteq> []"
    and "parse response = Some r"
    and "isArray (errors r)" and "arrayIndexOfFound (errors r) (JNum MISSING_CORE_CONSENT)"
    and "no_consent r = JStr ''CLIENT''"
    and "idRequestSuccess parse st now cid response = (st', logged, passed)"
    and "clientKey = KEY_EXPIRY @ ''_'' @ toStr cid"
  shows "passed = JUndefined \<and> logged = []
       \<and> (\<forall>e. expiry_ts r = Some e \<and> e \<noteq> 0 \<and> validTimestamp e \<longrightarrow>
             (cookiesEnabled st \<longrightarrow> cookies st' clientKey = Some (showInt e, toUTCString e))
           \<and> (localStorageEnabled st \<longrightarrow>
                 localStorageData st' clientKey = Some (showInt e)
               \<and> localStorageData st' (clientKey @ ''_exp'') = Some (showInt e)))
       \<and> (expiry_ts r = None \<or> expiry_ts r = Some 0 \<longrightarrow> st' = st)
       \<and> cookiesEnabled st' = cookiesEnabled st \<and> localStorageEnabled st' = localStorageEnabled st
       \<and> (\<forall>k. k \<noteq> clientKey \<longrightarrow> cookies st' k = cookies st k)
       \<and> (\<forall>k. k \<noteq> clientKey \<and> k \<noteq> clientKey @ ''_exp''
              \<longrightarrow> localStorageData st' k = localStorageData st k)
       \<and> (\<forall>k \<in> {KEY_ID, KEY_EXPIRY, KEY_PROFILE}.
             cookies st' k = cookies st k \<and> localStorageData st' k = localStorageData st k)
       \<and> (\<forall>t. getFromStorage st' t KEY_ID = getFromStorage st t KEY_ID
              \<and> getProfileId st' t = getProfileId st t
              \<and> (toStr cid \<noteq> ''exp''
                   \<longrightarrow> getFromStorage st' t KEY_EXPIRY = getFromStorage st t KEY_EXPIRY))"
proof -
  have key: "clientKey \<noteq> []" using assms(8) by (simp add: key_defs)
  have st': "st' = saveLotameCache st now clientKey (ofNumber (expiry_ts r)) (expiry_ts r)"
    and p: "passed = JUndefined" and l: "logged = []"
    using assms
    by (simp_all add: idRequestSuccess_def handleResponse_def processResponseIDs_client_stop)
  have flags:
    "cookiesEnabled st' = cookiesEnabled st" "localStorageEnabled st' = localStorageEnabled st"
    by (simp_all add: st' saveLotameCache_parts)
  have written:
    "cookiesEnabled st \<longrightarrow> cookies st' clientKey = Some (showInt e, toUTCString e)"
    "localStorageEnabled st \<longrightarrow>
       localStorageData st' clientKey = Some (showInt e)
       \<and> localStorageData st' (clientKey @ ''_exp'') = Some (showInt e)"
    if "expiry_ts r = Some e" "e \<noteq> 0" for e
    using key that by (simp_all add: st' saveLotameCache_parts ofNumber_def)
  have other:
    "k \<noteq> clientKey \<Longrightarrow> cookies st' k = cookies st k"
    "k \<noteq> clientKey \<Longrightarrow> k \<noteq> clientKey @ ''_exp'' \<Longrightarrow> localStorageData st' k = localStorageData st k"
    for k
    by (simp_all add: st' saveLotameCache_parts)
  note dist = clientKey_distinct[of "toStr cid", folded assms(8)]
  have named: "cookies st' k = cookies st k \<and> localStorageData st' k = localStorageData st k"
    if "k \<in> {KEY_ID, KEY_EXPIRY, KEY_PROFILE}" for k
    using that dist other[of k] by auto
  have reads: "getFromStorage st' t KEY_ID = getFromStorage st t KEY_ID
              \<and> getProfileId st' t = getProfileId st t
              \<and> (toStr cid \<noteq> ''exp''
                   \<longrightarrow> getFromStorage st' t KEY_EXPIRY = getFromStorage st t KEY_EXPIRY)" for t
  proof (intro conjI impI)
    show "getFromStorage st' t KEY_ID = getFromStorage st t KEY_ID"
      by (rule getFromStorage_frame) (use dist in \<open>simp_all add: flags other\<close>)
    show "getProfileId st' t = getProfileId st t"
      by (rule getProfileId_frame) (use dist in \<open>simp_all add: flags other\<close>)
    assume "toStr cid \<noteq> ''exp''"
    then have "clientKey \<noteq> KEY_EXPIRY @ ''_exp''" using assms(8) by simp
    then show "getFromStorage st' t KEY_EXPIRY = getFromStorage st t KEY_EXPIRY"
      by (intro getFromStorage_frame) (use dist in \<open>simp_all add: flags other\<close>)
  qed
  show ?thesis
  proof (intro conjI)
    show "passed = JUndefined" by (rule p)
    show "logged = []" by (rule l)
    show "\<forall>e. expiry_ts r = Some e \<and> e \<noteq> 0 \<and> validTimestamp e \<longrightarrow>
             (cookiesEnabled st \<longrightarrow> cookies st' clientKey = Some (showInt e, toUTCString e))
           \<and> (localStorageEnabled st \<longrightarrow>
                 localStorageData st' clientKey = Some (showInt e)
               \<and> localStorageData st' (clientKey @ ''_exp'') = Some (showInt e))"
      using written by simp
    show "expiry_ts r = None \<or> expiry_ts r = Some 0 \<longrightarrow> st' = st"
      by (auto simp: st' saveLotameCache_def ofNumber_def)
    show "cookiesEnabled st' = cookiesEnabled st" "localStorageEnabled st' = localStorageEnabled st"
      by (rule flags)+
    show "\<forall>k. k \<noteq> clientKey \<longrightarrow> cookies st' k = cookies st k"
      using other(1) by simp
    show "\<forall>k. k \<noteq> clientKey \<and> k \<noteq> clientKey @ ''_exp''
              \<longrightarrow> localStorageData st' k = localStorageData st k"
      using other(2) by simp
    show "\<forall>k \<in> {KEY_ID, KEY_EXPIRY, KEY_PROFILE}.
             cookies st' k = cookies st k \<and> localStorageData st' k = localStorageData st k"
      using named by blast
    show "\<forall>t. getFromStorage st' t KEY_ID = getFromStorage st t KEY_ID
              \<and> getProfileId st' t = getProfileId st t
              \<and> (toStr cid \<noteq> ''exp''
                   \<longrightarrow> getFromStorage st' t KEY_EXPIRY = getFromStorage st t KEY_EXPIRY)"
      using reads by simp
  qed
qed

theorem client_no_consent_stops_witness:
  "\<not> isEmpty (JStr ''7'')
   \<and> isArray (errors clientNoConsentResponse)
   \<and> arrayIndexOfFound (errors clientNoConsentResponse) (JNum MISSING_CORE_CONSENT)
   \<and> no_consent clientNoConsentResponse = JStr ''CLIENT''
   \<and> expiry_ts clientNoConsentResponse = Some 5000 \<and> validTimestamp 5000
   \<and> snd (snd (idRequestSuccess (\<lambda>b. Some clientNoConsentResponse) cachedStorage 1000
                  (JStr ''7'') ''{}'')) = JUndefined
   \<and> cookies (fst (idRequestSuccess (\<lambda>b. Some clientNoConsentResponse) cachedStorage 1000
                  (JStr ''7'') ''{}'')) ''panoramaId_expiry_7'' = Some (''5000'', 5000)
   \<and> cookies (fst (idRequestSuccess (\<lambda>b. Some clientNoConsentResponse) cachedStorage 1000
                  (JStr ''7'') ''{}'')) ''panoramaId'' = Some (''abc'', 9000)"
proof -
  let ?r = "idRequestSuccess (\<lambda>b. Some clientNoConsentResponse) cachedStorage 1000 (JStr ''7'') ''{}''"
  have a: "\<not> isEmpty (JStr ''7'')" by (simp add: isEmpty_def)
  have b: "''{}'' \<noteq> []" by simp
  have c: "(\<lambda>b. Some clientNoConsentResponse) ''{}'' = Some clientNoConsentResponse" by simp
  have d: "isArray (errors clientNoConsentResponse)"
    "arrayIndexOfFound (errors clientNoConsentResponse) (JNum MISSING_CORE_CONSENT)"
    "no_consent clientNoConsentResponse = JStr ''CLIENT''"
    by (simp_all add: clientNoConsentResponse_def MISSING_CORE_CONSENT_def)
  have e: "expiry_ts clientNoConsentResponse = Some 5000" "validTimestamp 5000"
    by (simp_all add: clientNoConsentResponse_def validTimestamp_def)
  have f: "?r = (fst ?r, fst (snd ?r), snd (snd ?r))" by simp
  have g: "''panoramaId_expiry_7'' = KEY_EXPIRY @ ''_'' @ toStr (JStr ''7'')" by (simp add: key_defs)
  have h: "cookiesEnabled cachedStorage" "cookies cachedStorage ''panoramaId'' = Some (''abc'', 9000)"
    by (simp_all add: cachedStorage_def)
  show ?thesis
    using client_no_consent_stops[OF a b c d f g] a d e h
    by (simp add: numeral_defs toUTCString_def)
qed

text \<open>
  The claim C3 as the spec states it fails for a response without \<^verbatim>\<open>expiry_ts\<close>:
  \<^verbatim>\<open>saveLotameCache\<close> does not store an empty value, so no suppression entry is
  written for the client.
\<close>

theorem client_no_consent_stops_counterexample:
  "cookies (fst (idRequestSuccess (\<lambda>b. Some clientNoConsentNoExpiryResponse) cachedStorage 1000
                   (JStr ''7'') ''{}'')) ''panoramaId_expiry_7'' = None
   \<and> localStorageData
        (fst (idRequestSuccess (\<lambda>b. Some clientNoConsentNoExpiryResponse) cachedStorage 1000
                (JStr ''7'') ''{}'')) ''panoramaId_expiry_7'' = None"
  by (simp add: idRequestSuccess_def handleResponse_def clientNoConsentNoExpiryResponse_def
      MISSING_CORE_CONSENT_def processResponseIDs_def Let_def isEmpty_def ofNumber_def
      saveLotameCache_def cachedStorage_def)

text \<open>
  C1, as the code has it, for a response with an integer or absent \<^verbatim>\<open>expiry_ts\<close>
  that the rule for the client-scoped missing consent does not stop, the expiry written
  and the expiry of the ProfileId being times of valid dates. If \<^verbatim>\<open>profile_id\<close> is
  a string, the empty one included, and the response is free of the consent error, the
  ProfileId is written. If \<^verbatim>\<open>profile_id\<close>
  is a string and \<^verbatim>\<open>core_id\<close> a non-empty string, the CoreId is written with the expiry
  \<^verbatim>\<open>expiry_ts\<close> (seven days from now when the response has none) and is the value
  returned. If \<^verbatim>\<open>profile_id\<close> is a string and \<^verbatim>\<open>core_id\<close> is not, or if
  \<^verbatim>\<open>profile_id\<close> is not a string, the CoreId is cleared and \<^verbatim>\<open>undefined\<close> is
  returned; in the latter case the ProfileId is cleared too when the response is free of
  the consent error.
\<close>

theorem processResponseIDs_ids:
  assumes "\<not> (\<not> isEmpty cid \<and> \<not> errFree \<and> noConsent = JStr ''CLIENT'')"
    and "processResponseIDs st now profileId coreId cid noConsent expiry errFree = (st', returned)"
    and "expiration = (case expiry of None \<Rightarrow> now + DAYS_TO_CACHE * DAY_MS | Some t \<Rightarrow> t)"
    and "validTimestamp expiration" and "validTimestamp (now + NINE_MONTHS_MS)"
  shows "(isStr profileId \<and> errFree \<longrightarrow>
            (cookiesEnabled st \<longrightarrow>
               cookies st' KEY_PROFILE = Some (toStr profileId, toUTCString (now + NINE_MONTHS_MS)))
          \<and> (localStorageEnabled st \<longrightarrow> localStorageData st' KEY_PROFILE = Some (toStr profileId)))
       \<and> (isStr profileId \<and> isStr coreId \<and> coreId \<noteq> JStr [] \<longrightarrow>
            returned = coreId
          \<and> (cookiesEnabled st \<longrightarrow> cookies st' KEY_ID = Some (toStr coreId, toUTCString expiration))
          \<and> (localStorageEnabled st \<longrightarrow>
                localStorageData st' KEY_ID = Some (toStr coreId)
              \<and> localStorageData st' (KEY_ID @ ''_exp'') = Some (showInt expiration))
          \<and> (cookiesEnabled st \<or> localStorageEnabled st \<longrightarrow>
                (\<forall>t. t < toUTCString expiration \<longrightarrow> getFromStorage st' t KEY_ID = Some (toStr coreId))))
       \<and> (isStr profileId \<and> \<not> isStr coreId \<or> \<not> isStr profileId \<longrightarrow>
            returned = JUndefined
          \<and> (cookiesEnabled st \<longrightarrow> cookies st' KEY_ID = Some ([], 0))
          \<and> (localStorageEnabled st \<longrightarrow> localStorageData st' KEY_ID = None)
          \<and> (\<forall>t. 0 \<le> t \<longrightarrow> getFromStorage st' t KEY_ID = None))
       \<and> (\<not> isStr profileId \<and> errFree \<longrightarrow>
            (cookiesEnabled st \<longrightarrow> cookies st' KEY_PROFILE = Some ([], 0))
          \<and> (localStorageEnabled st \<longrightarrow> localStorageData st' KEY_PROFILE = None)
          \<and> (\<forall>t. 0 \<le> t \<longrightarrow> getProfileId st' t = None))"
proof (cases "isStr profileId")
  case True
  then obtain p where p: "profileId = JStr p" by (auto simp: isStr_conv)
  note r = processResponseIDs_profile_string[OF assms(1) assms(2)[unfolded p]]
  have flags: "cookiesEnabled st' = cookiesEnabled st" "localStorageEnabled st' = localStorageEnabled st"
    by (simp_all add: r(1) Let_def parts)
  have prof: "errFree \<Longrightarrow> cookiesEnabled st \<Longrightarrow>
        cookies st' KEY_PROFILE = Some (p, toUTCString (now + NINE_MONTHS_MS))"
      "errFree \<Longrightarrow> localStorageEnabled st \<Longrightarrow> localStorageData st' KEY_PROFILE = Some p"
    using key_distinct by (simp_all add: r(1) Let_def parts)
  have cleared: "cookiesEnabled st \<longrightarrow> cookies st' KEY_ID = Some ([], 0)"
       "localStorageEnabled st \<longrightarrow> localStorageData st' KEY_ID = None" if "\<not> isStr coreId"
    using key_distinct that by (simp_all add: r(1) Let_def parts)
  have written: "cookiesEnabled st \<longrightarrow> cookies st' KEY_ID = Some (toStr coreId, toUTCString expiration)"
       "localStorageEnabled st \<longrightarrow> localStorageData st' KEY_ID = Some (toStr coreId)
              \<and> localStorageData st' (KEY_ID @ ''_exp'') = Some (showInt expiration)"
    if "isStr coreId" "coreId \<noteq> JStr []"
    using key_distinct that by (auto simp: r(1) Let_def parts assms(3) isStr_conv)
  have reads: "getFromStorage st' t KEY_ID = Some (toStr coreId)"
    if "isStr coreId" "coreId \<noteq> JStr []" "cookiesEnabled st \<or> localStorageEnabled st"
       "t < toUTCString expiration" for t
    using written[OF that(1,2)] that(3,4) by (intro getFromStorage_written) (simp_all add: flags)
  have gone: "getFromStorage st' t KEY_ID = None" if "\<not> isStr coreId" "0 \<le> t" for t
    using cleared[OF that(1)] that(2) by (intro getFromStorage_cleared) (simp_all add: flags)
  show ?thesis
    using True p prof cleared written reads gone r(2) by auto
next
  case False
  note r = processResponseIDs_profile_other[OF assms(1) False assms(2)]
  have flags: "cookiesEnabled st' = cookiesEnabled st" "localStorageEnabled st' = localStorageEnabled st"
    by (simp_all add: r(1) Let_def parts)
  have cleared: "cookiesEnabled st \<longrightarrow> cookies st' KEY_ID = Some ([], 0)"
       "localStorageEnabled st \<longrightarrow> localStorageData st' KEY_ID = None"
    using key_distinct by (simp_all add: r(1) Let_def parts)
  have pcleared: "cookiesEnabled st \<longrightarrow> cookies st' KEY_PROFILE = Some ([], 0)"
       "localStorageEnabled st \<longrightarrow> localStorageData st' KEY_PROFILE = None" if "errFree"
    using key_distinct that by (simp_all add: r(1) Let_def parts)
  have gone: "getFromStorage st' t KEY_ID = None" if "0 \<le> t" for t
    using cleared that by (intro getFromStorage_cleared) (simp_all add: flags)
  have pgone: "getProfileId st' t = None" if "errFree" "0 \<le> t" for t
    using pcleared[OF that(1)] that(2) by (intro getProfileId_cleared) (simp_all add: flags)
  show ?thesis
    using False cleared pcleared gone pgone r(2) by auto
qed

theorem processResponseIDs_ids_witness:
  "\<not> (\<not> isEmpty JUndefined \<and> \<not> True \<and> JUndefined = JStr ''CLIENT'')
   \<and> validTimestamp 5000 \<and> validTimestamp (1000 + NINE_MONTHS_MS)
   \<and> isStr (JStr ''p1'') \<and> isStr (JStr ''abc'') \<and> JStr ''abc'' \<noteq> JStr []
   \<and> snd (processResponseIDs emptyStorage 1000 (JStr ''p1'') (JStr ''abc'') JUndefined JUndefined
            (Some 5000) True) = JStr ''abc''
   \<and> cookies (fst (processResponseIDs emptyStorage 1000 (JStr ''p1'') (JStr ''abc'') JUndefined
                      JUndefined (Some 5000) True)) KEY_ID = Some (''abc'', 5000)
   \<and> localStorageData (fst (processResponseIDs emptyStorage 1000 (JStr ''p1'') (JStr ''abc'')
                      JUndefined JUndefined (Some 5000) True)) KEY_PROFILE = Some ''p1''"
proof -
  let ?r = "processResponseIDs emptyStorage 1000 (JStr ''p1'') (JStr ''abc'') JUndefined JUndefined
              (Some 5000) True"
  have a: "\<not> (\<not> isEmpty JUndefined \<and> \<not> True \<and> JUndefined = JStr ''CLIENT'')" by simp
  have b: "?r = (fst ?r, snd ?r)" by simp
  have c: "(5000::int) = (case Some 5000 of None \<Rightarrow> 1000 + DAYS_TO_CACHE * DAY_MS | Some t \<Rightarrow> t)"
    by simp
  have d: "cookiesEnabled emptyStorage" "localStorageEnabled emptyStorage"
    by (simp_all add: emptyStorage_def)
  have v: "validTimestamp 5000" "validTimestamp (1000 + NINE_MONTHS_MS)"
    by (simp_all add: validTimestamp_def NINE_MONTHS_MS_def)
  show ?thesis
    using processResponseIDs_ids[OF a b c v] d v by (simp add: toUTCString_def)
qed

text \<open>
  The claim C1 as the spec states it fails for an empty \<^verbatim>\<open>profile_id\<close>, which is a
  string for \<^verbatim>\<open>isStr\<close>: the CoreId of the response is stored and returned, not cleared.
\<close>

theorem processResponseIDs_ids_counterexample:
  "snd (processResponseIDs emptyStorage 1000 (JStr []) (JStr ''abc'') JUndefined JUndefined
          (Some 5000) True) = JStr ''abc''
   \<and> getFromStorage
        (fst (processResponseIDs emptyStorage 1000 (JStr []) (JStr ''abc'') JUndefined JUndefined
                (Some 5000) True)) 1500 KEY_ID = Some ''abc''"
  by (simp add: processResponseIDs_def storeResponseIDs_def Let_def isEmpty_def ofNumber_def
      emptyStorage_def
      storage_defs key_defs numeral_defs toUTCString_def)

subsection \<open>The side call of \<^verbatim>\<open>getId\<close>\<close>

text \<open>
  C5, as the code has it: \<^verbatim>\<open>getId\<close> calls \<^verbatim>\<open>sendUserData\<close> only after the
  suppression test. When the suppression window of the configured client is active,
  \<^verbatim>\<open>getId\<close> returns before the side call and no request is issued; otherwise the
  side call is made whether or not the cached id is fresh, and it issues its request
  exactly when the client id and the hashed identifier (the first one of an array) are
  both non-empty.
\<close>

theorem getId_side_call:
  "snd (getId st now configParams consentData) =
     (if \<not> isEmpty (clientId configParams)
         \<and> jsless (Num now)
              (clientExpiryTimestampMs (getLotameLocalCache st now (clientId configParams)))
      then []
      else (case sendUserData configParams of None \<Rightarrow> [] | Some r \<Rightarrow> [r]))
   \<and> (sendUserData configParams \<noteq> None \<longleftrightarrow>
        \<not> isEmpty (clientId configParams) \<and> \<not> isEmpty (hems configParams)
        \<and> (\<forall>x xs. hems configParams = JArr (x # xs) \<longrightarrow> \<not> isEmpty x))"
proof -
  have a: "snd (getId st now configParams consentData) =
     (if \<not> isEmpty (clientId configParams)
         \<and> jsless (Num now)
              (clientExpiryTimestampMs (getLotameLocalCache st now (clientId configParams)))
      then []
      else (case sendUserData configParams of None \<Rightarrow> [] | Some r \<Rightarrow> [r]))"
    by (simp add: getId_def Let_def split: option.splits)
  have b: "sendUserData configParams \<noteq> None \<longleftrightarrow>
        \<not> isEmpty (clientId configParams) \<and> \<not> isEmpty (hems configParams)
        \<and> (\<forall>x xs. hems configParams = JArr (x # xs) \<longrightarrow> \<not> isEmpty x)"
    by (cases "hems configParams")
       (auto simp: sendUserData_def Let_def isEmpty_def split: list.splits)
  from a b show ?thesis by blast
qed

theorem getId_side_call_witness:
  "getId suppressedStorage 5000 hemConfig None = (IdResponse ''abc'', [hemRequest])
   \<and> \<not> jsless (Num 5000)
          (clientExpiryTimestampMs (getLotameLocalCache suppressedStorage 5000 (clientId hemConfig)))
   \<and> \<not> isEmpty (clientId hemConfig) \<and> \<not> isEmpty (hems hemConfig)"
proof -
  have a: "\<not> jsless (Num 5000)
          (clientExpiryTimestampMs (getLotameLocalCache suppressedStorage 5000 (clientId hemConfig)))"
    by (simp add: hemConfig_def getLotameLocalCache_def suppressedStorage_def storage_defs key_defs
        numeral_defs)
  have b: "sendUserData hemConfig = Some hemRequest"
    by (simp add: hemConfig_def hemRequest_def sendUserData_def isEmpty_def)
  have c: "fst (getId suppressedStorage 5000 hemConfig None) = IdResponse ''abc''"
    by (simp add: getId_def Let_def hemConfig_def isEmpty_def getCurrentPanoId_def ofStored_def
      getLotameLocalCache_def suppressedStorage_def storage_defs key_defs numeral_defs
      split: option.splits)
  have d: "\<not> isEmpty (clientId hemConfig)" "\<not> isEmpty (hems hemConfig)"
    by (simp_all add: hemConfig_def isEmpty_def)
  from getId_side_call[of suppressedStorage 5000 hemConfig None] a b
  have "snd (getId suppressedStorage 5000 hemConfig None) = [hemRequest]" by simp
  with a c d show ?thesis by (simp add: prod_eq_iff)
qed

text \<open>
  The claim C5 as the spec states it fails: with an active suppression window
  \<^verbatim>\<open>getId\<close> returns without any request, for a configuration on which
  \<^verbatim>\<open>sendUserData\<close> would issue one.
\<close>

theorem getId_side_call_counterexample:
  "getId suppressedStorage 1500 hemConfig None = (IdUndefined ''NO_CLIENT_CONSENT'', [])
   \<and> sendUserData hemConfig = Some hemRequest"
  by (simp add: getId_def Let_def hemConfig_def hemRequest_def sendUserData_def isEmpty_def
      getLotameLocalCache_def suppressedStorage_def storage_defs key_defs numeral_defs)

subsection \<open>An expiry record that is not a number\<close>

text \<open>
  C6 says that a stored suppression expiry that is not a number is handled on loading:
  the parse failure is logged and the field \<^verbatim>\<open>clientExpiryTimestampMs\<close> stays at its
  initial 0. \<^verbatim>\<open>getLotameLocalCache\<close> starts the field at 0 and wraps the parsing in
  \<^verbatim>\<open>try\<close> and \<^verbatim>\<open>catch\<close> with \<^verbatim>\<open>logError\<close>, but \<^verbatim>\<open>parseInt\<close> does not throw: it
  yields \<^verbatim>\<open>NaN\<close>, the \<^verbatim>\<open>catch\<close> block is not entered, and for the stored string
  \<^verbatim>\<open>soon\<close> the field is assigned \<^verbatim>\<open>NaN\<close>.
\<close>

theorem malformed_client_expiry_is_NaN:
  "getFromStorage malformedClientExpiryStorage 1500 ''panoramaId_expiry_7'' = Some ''soon''
   \<and> clientExpiryTimestampMs (getLotameLocalCache malformedClientExpiryStorage 1500 (JStr ''7''))
       = NaN"
  by (simp add: getLotameLocalCache_def malformedClientExpiryStorage_def storage_defs key_defs
      numeral_defs)

subsection \<open>The deferred callback\<close>

text \<open>
  The deferred callback tests the cache object that \<^verbatim>\<open>getId\<close> loaded, not the
  storage. \<^verbatim>\<open>getId\<close> returns the callback only when that object holds no fresh id,
  so at any later time the test fails again and the request is issued, whatever the
  storage holds by then.
\<close>

lemma resolveIdFunction_never_calls_back:
  assumes "getId st now configParams consentData = (CallbackResponse c, sent)" and "now \<le> now'"
  shows "\<exists>r. resolveIdFunction env c st' now' = RequestIssued r"
proof -
  let ?lc = "getLotameLocalCache st now (clientId configParams)"
  from assms(1) have c: "closureLocalCache c = ?lc" and n: "getCurrentPanoId now ?lc = None"
    by (auto simp: getId_def Let_def split: if_splits option.splits)
  have "getCurrentPanoId now' ?lc = None"
  proof (cases "expiryTimestampMs ?lc")
    case (Num e)
    with n assms(2) show ?thesis
      by (auto simp: getCurrentPanoId_def Let_def isEmpty_def ofStored_def split: if_splits option.splits)
  next
    case NaN
    with n show ?thesis
      by (auto simp: getCurrentPanoId_def Let_def split: if_splits)
  qed
  then show ?thesis by (simp add: resolveIdFunction_def c Let_def)
qed

text \<open>
  C8 says that the deferred callback, when a fresh CoreId has been stored since
  \<^verbatim>\<open>getId\<close> built it, passes that CoreId to the caller's callback without a request.
  The code does not: \<^verbatim>\<open>getId\<close> at 1000 on the empty storage returns the callback;
  the response of the side call stores the CoreId \<^verbatim>\<open>abc\<close> at 1100; at 1500 a load of
  the cache finds \<^verbatim>\<open>abc\<close> fresh, but the callback issues the \<^verbatim>\<open>/id\<close> request.
\<close>

theorem resolveIdFunction_stale_snapshot:
  "getId emptyStorage 1000 hemConfig None = (CallbackResponse staleClosure, [hemRequest])
   \<and> getCurrentPanoId 1500
        (getLotameLocalCache
           (fst (sendUserDataSuccess (\<lambda>b. Some grantedResponse) emptyStorage 1100 (JStr ''7'') ''{}''))
           1500 (JStr ''7'')) = Some ''abc''
   \<and> resolveIdFunction exampleEnvironment staleClosure
        (fst (sendUserDataSuccess (\<lambda>b. Some grantedResponse) emptyStorage 1100 (JStr ''7'') ''{}''))
        1500
      = RequestIssued \<lparr>ajaxMethod = ''GET'', ajaxHost = ''id.crwdcntrl.net'',
                       ajaxPathname = ''/id'', ajaxData = [(''c'', JStr ''7'')]\<rparr>"
proof -
  let ?st = "fst (sendUserDataSuccess (\<lambda>b. Some grantedResponse) emptyStorage 1100 (JStr ''7'') ''{}'')"
  have a: "getId emptyStorage 1000 hemConfig None = (CallbackResponse staleClosure, [hemRequest])"
    by (simp add: getId_def Let_def hemConfig_def hemRequest_def staleClosure_def sendUserData_def
        isEmpty_def getCurrentPanoId_def ofStored_def getLotameLocalCache_def emptyStorage_def
        storage_defs)
  have st: "?st = saveLotameCache
                    (setProfileId
                       (saveLotameCache (clearLotameCache emptyStorage ''panoramaId_expiry_7'')
                          1100 KEY_EXPIRY (JNum 5000) (Some 5000))
                       1100 ''p1'')
                    1100 KEY_ID (JStr ''abc'') (Some 5000)"
    by (simp add: sendUserDataSuccess_def handleResponse_def grantedResponse_def Let_def
        processResponseIDs_def storeResponseIDs_def isEmpty_def ofNumber_def key_defs)
  have flags: "cookiesEnabled ?st" "localStorageEnabled ?st"
    unfolding st by (simp_all add: parts emptyStorage_def)
  have ck: "cookies ?st =
      [''panoramaId_expiry_7'' \<mapsto> ([], 0), ''panoramaId_expiry'' \<mapsto> (''5000'', 5000),
       ''_cc_id'' \<mapsto> (''p1'', toUTCString (1100 + NINE_MONTHS_MS)), ''panoramaId'' \<mapsto> (''abc'', 5000)]"
    unfolding st by (simp add: parts emptyStorage_def key_defs numeral_defs toUTCString_def)
  have ls: "localStorageData ?st =
      [''panoramaId_expiry_exp'' \<mapsto> ''5000'', ''panoramaId_expiry'' \<mapsto> ''5000'',
       ''_cc_id'' \<mapsto> ''p1'', ''panoramaId_exp'' \<mapsto> ''5000'', ''panoramaId'' \<mapsto> ''abc'']"
    unfolding st by (simp add: parts emptyStorage_def key_defs numeral_defs)
  have b: "getCurrentPanoId 1500 (getLotameLocalCache ?st 1500 (JStr ''7'')) = Some ''abc''"
    by (simp add: getCurrentPanoId_def getLotameLocalCache_def Let_def getFromStorage_def
        getCookie_def cookiesAreEnabled_def hasLocalStorage_def getDataFromLocalStorage_def
        flags ck ls key_defs numeral_defs isEmpty_def ofStored_def)
  have c: "getConsentParameters exampleEnvironment ?st 1500 None = []"
    by (simp add: getConsentParameters_def Let_def exampleEnvironment_def getFromStorage_def
        getCookie_def cookiesAreEnabled_def hasLocalStorage_def getDataFromLocalStorage_def
        flags ck ls isEmpty_def isEmptyStr_def ofStored_def)
  have d: "getRequestHost exampleEnvironment = ''id.crwdcntrl.net''"
    by (simp add: getRequestHost_def useCookieless_def exampleEnvironment_def ID_HOST_def)
  have e: "resolveIdFunction exampleEnvironment staleClosure ?st 1500
      = RequestIssued \<lparr>ajaxMethod = ''GET'', ajaxHost = ''id.crwdcntrl.net'',
                       ajaxPathname = ''/id'', ajaxData = [(''c'', JStr ''7'')]\<rparr>"
    by (simp add: resolveIdFunction_def Let_def c d staleClosure_def getCurrentPanoId_def
        isEmpty_def ofStored_def)
  from a b e show ?thesis by simp
qed

subsection \<open>A global expiry record that is not a number\<close>

text \<open>
  C9 says that a malformed cached value shows only as an absent id and a log line. With
  the stored global expiry \<^verbatim>\<open>soon\<close> it does not: \<^verbatim>\<open>parseInt\<close> yields \<^verbatim>\<open>NaN\<close>
  without throwing, so nothing is logged and the expiry does not stay at 0; the test
  \<^verbatim>\<open>Date.now() > NaN\<close> of \<^verbatim>\<open>getCurrentPanoId\<close> is false, and \<^verbatim>\<open>getId\<close> returns
  the stored id as a fresh one. (With the record missing, the same id counts as expired.)
\<close>

theorem malformed_expiry_returns_id:
  "getFromStorage malformedExpiryStorage 8000 KEY_EXPIRY = Some ''soon''
   \<and> expiryTimestampMs (getLotameLocalCache malformedExpiryStorage 8000 JUndefined) = NaN
   \<and> fst (getId malformedExpiryStorage 8000 \<lparr>clientId = JUndefined, hems = JUndefined\<rparr> None)
       = IdResponse ''abc''"
  by (simp add: getId_def Let_def getLotameLocalCache_def getCurrentPanoId_def isEmpty_def
      ofStored_def malformedExpiryStorage_def storage_defs key_defs numeral_defs sendUserData_def)

end
